theory Spec2Isabelle
  imports Complex_Main
begin

section \<open>Paths\<close>

text \<open>
  Every path the program handles is absolute: inputs go through \<open>fullpath\<close> (which
  resolves them), and archive members are joined onto the name of a temporary directory.
  A path is therefore the list of its components below the root; a root of exactly two
  slashes is identified with the ordinary root. Strings are lists of \<open>char\<close>.
\<close>

type_synonym path = "string list"

definition name :: "path \<Rightarrow> string" where
  "name p = (if p = [] then [] else last p)"

definition parent :: "path \<Rightarrow> path" where
  "parent p = butlast p"

text \<open>
  \<open>PurePath.suffix\<close>: with \<open>i\<close> the index of the last dot of the name, the suffix is
  \<open>name[i:]\<close> when \<open>0 < i < len(name) - 1\<close> and the empty string otherwise. Below,
  \<open>ext\<close> is what follows the last dot, so \<open>i = len(name) - len(ext) - 1\<close>.
\<close>

definition suffix :: "path \<Rightarrow> string" where
  "suffix p =
     (let n = name p;
          ext = rev (takeWhile (\<lambda>c. c \<noteq> CHR ''.'') (rev n))
      in if CHR ''.'' \<in> set n \<and> ext \<noteq> [] \<and> Suc (length ext) < length n
         then CHR ''.'' # ext
         else [])"

definition as_posix :: "path \<Rightarrow> string" where
  "as_posix p = (if p = [] then ''/'' else concat (map (\<lambda>c. CHR ''/'' # c) p))"

definition joinpath :: "path \<Rightarrow> string \<Rightarrow> path" where
  "joinpath d n = (if n = [] then d else d @ [n])"

datatype error =
  ValueError | FileNotFoundError | AttributeError | IsADirectoryError | NotADirectoryError
  | FileExistsError | ShutilError

text \<open>\<open>PurePath.with_suffix\<close> and \<open>PurePath.with_name\<close>, with their \<open>ValueError\<close>s.\<close>

definition with_suffix :: "path \<Rightarrow> string \<Rightarrow> error + path" where
  "with_suffix p s =
     (if CHR ''/'' \<in> set s \<or> (s \<noteq> [] \<and> hd s \<noteq> CHR ''.'') \<or> s = ''.'' then Inl ValueError
      else if name p = [] then Inl ValueError
      else Inr (butlast p @ [take (length (name p) - length (suffix p)) (name p) @ s]))"

definition with_name :: "path \<Rightarrow> string \<Rightarrow> error + path" where
  "with_name p n =
     (if name p = [] then Inl ValueError
      else if n = [] \<or> CHR ''/'' \<in> set n \<or> n = ''.'' then Inl ValueError
      else Inr (butlast p @ [n]))"

section \<open>Classifier\<close>

datatype kind = Sheet | Image | Archive

text \<open>\<open>App.types\<close>, in the order of the dictionary.\<close>

definition types :: "(kind \<times> string list) list" where
  "types =
     [(Sheet, [''gdi'', ''cue'']),
      (Image, [''iso'']),
      (Archive, [''7z'', ''zip'', ''gz'', ''gzip'', ''bz2'', ''bzip2'', ''rar'', ''tar''])]"

text \<open>
  \<open>str.lower\<close> on the letters A to Z. No other character lowercases to a string of
  letters of the table, so the classification of names with other characters is the same.
\<close>

definition lower_char :: "char \<Rightarrow> char" where
  "lower_char c =
     (case map_of (zip ''ABCDEFGHIJKLMNOPQRSTUVWXYZ'' ''abcdefghijklmnopqrstuvwxyz'') c of
        Some d \<Rightarrow> d
      | None \<Rightarrow> c)"

definition lower :: "string \<Rightarrow> string" where
  "lower s = map lower_char s"

definition lstrip :: "string \<Rightarrow> char \<Rightarrow> string" where
  "lstrip s ch = dropWhile (\<lambda>c. c = ch) s"

fun first_type :: "(kind \<times> string list) list \<Rightarrow> string \<Rightarrow> kind option" where
  "first_type [] s = None"
| "first_type ((file_type, extensions) # rest) s =
     (if s \<in> set extensions then Some file_type else first_type rest s)"

definition match_type :: "path \<Rightarrow> kind option" where
  "match_type p =
     (if suffix p \<noteq> [] then first_type types (lstrip (lower (suffix p)) CHR ''.'')
      else None)"

section \<open>Files and the two filter passes\<close>

record File =
  input :: path
  output_path :: path
  type :: "kind option"
  tempdir :: "path option"

definition filter_other_in_gdi_dirs :: "File list \<Rightarrow> File list" where
  "filter_other_in_gdi_dirs list_of_files =
     (let gdi_dirs = map (\<lambda>f. parent (input f))
                       (filter (\<lambda>f. suffix (input f) = ''.gdi'') list_of_files)
      in if gdi_dirs \<noteq> []
         then filter (\<lambda>file. parent (input file) \<notin> set gdi_dirs
                              \<or> suffix (input file) = ''.gdi'') list_of_files
         else list_of_files)"

definition filter_images_in_sheet_dirs :: "File list \<Rightarrow> File list" where
  "filter_images_in_sheet_dirs list_of_files =
     (let sheet_dirs = map (\<lambda>f. parent (input f))
                         (filter (\<lambda>f. type f = Some Sheet) list_of_files)
      in if sheet_dirs \<noteq> []
         then filter (\<lambda>file. \<not> (parent (input file) \<in> set sheet_dirs
                                 \<and> suffix (input file) = ''.iso'')) list_of_files
         else list_of_files)"

section \<open>The application and its environment\<close>

text \<open>
  The attributes of \<open>App\<close> that the conversion methods read or write. The numbers are
  Python integers.
\<close>

record App =
  mode :: string
  chdman :: path
  p7z :: path
  no_rename :: bool
  chd_processors :: int
  parallel :: bool
  quiet :: bool
  names :: bool
  dry_run :: bool
  stats_started :: int
  stats_skipped :: int
  stats_failed :: int
  stats_completed :: int

text \<open>Lines 154 to 157 of \<open>App.__init__\<close>: the four counters start at zero.\<close>

definition init_stats :: "App \<Rightarrow> App" where
  "init_stats app =
     app\<lparr>stats_started := 0, stats_skipped := 0, stats_failed := 0, stats_completed := 0\<rparr>"

text \<open>
  What a method acts on: the object \<open>self\<close>, the paths that exist on disk with the size
  \<open>stat\<close> reports for them, those of them that are directories, the job messages
  printed so far (job index, message, path as shown), the external processes run so far,
  and the jobs handed to the worker pool. The layout of the printed line (\<open>rjust\<close>)
  is left to the reader of the triple. The disk is one file system without symbolic links,
  and the operations below are given for paths whose parent directory exists.
\<close>

datatype stream = PIPE | Inherited

record CompletedProcess =
  returncode :: int
  stdout :: string

datatype task = Convert_file File int | Convert_archive File int

record state =
  self :: App
  paths :: "path set"
  st_size :: "path \<Rightarrow> nat"
  dirs :: "path set"
  printed :: "(int \<times> string \<times> string) list"
  spawned :: "(string list \<times> stream \<times> stream) list"
  pool :: "task list"

text \<open>
  The external programs are black boxes: \<open>run\<close> gives, for a command line and the disk
  it finds, the completed process and the disk it leaves. \<open>mkdtemp\<close> is the name the
  system picks for a new temporary directory.
\<close>

type_synonym disk = "path set \<times> (path \<Rightarrow> nat) \<times> path set"

record env =
  run :: "string list \<Rightarrow> disk \<Rightarrow> CompletedProcess \<times> disk"
  mkdtemp :: "path \<Rightarrow> path set \<Rightarrow> string"

definition exists :: "path \<Rightarrow> state \<Rightarrow> bool" where
  "exists p st = (p \<in> paths st)"

text \<open>
  \<open>Path.unlink(missing_ok=True)\<close>: a missing path is passed over, a directory is
  refused.
\<close>

definition unlink :: "path \<Rightarrow> state \<Rightarrow> state \<times> (error + unit)" where
  "unlink p st =
     (if p \<in> paths st \<and> p \<in> dirs st then (st, Inl IsADirectoryError)
      else (st\<lparr>paths := paths st - {p}\<rparr>, Inr ()))"

text \<open>
  \<open>shutil.move\<close>. A destination that is a directory takes the source under its own name,
  unless that name is taken. Then the source is renamed: a file replaces a file at the
  target, a directory goes there with all that is below it, but not into itself and not
  onto a file.
\<close>

definition move :: "path \<Rightarrow> path \<Rightarrow> state \<Rightarrow> state \<times> (error + unit)" where
  "move src dst st =
     (let into = (dst \<in> paths st \<and> dst \<in> dirs st);
          real_dst = (if into then dst @ [name src] else dst)
      in if into \<and> src = dst then (st, Inr ())
         else if into \<and> real_dst \<in> paths st then (st, Inl ShutilError)
         else if src \<notin> paths st then (st, Inl FileNotFoundError)
         else if src \<notin> dirs st then
           (st\<lparr>paths := insert real_dst (paths st - {src}),
               st_size := (st_size st)(real_dst := st_size st src),
               dirs := dirs st - {real_dst}\<rparr>, Inr ())
         else if take (length src) real_dst = src then (st, Inl ShutilError)
         else if real_dst \<in> paths st then (st, Inl FileExistsError)
         else
           (st\<lparr>paths := {p \<in> paths st. take (length src) p \<noteq> src}
                         \<union> (\<lambda>p. real_dst @ drop (length src) p)
                             ` {p \<in> paths st. take (length src) p = src},
               st_size := (\<lambda>p. if take (length real_dst) p = real_dst
                                then st_size st (src @ drop (length real_dst) p)
                                else st_size st p),
               dirs := {p \<in> dirs st. take (length src) p \<noteq> src}
                        \<union> (\<lambda>p. real_dst @ drop (length src) p)
                            ` {p \<in> dirs st. take (length src) p = src}\<rparr>, Inr ()))"

text \<open>
  \<open>TemporaryDirectory(dir=d)\<close> creates a directory in \<open>d\<close>, which has to be a
  directory. \<open>cleanup\<close> removes the directory with all that is below it; it passes
  over a missing path and refuses a path that is not a directory.
\<close>

definition TemporaryDirectory :: "env \<Rightarrow> path \<Rightarrow> state \<Rightarrow> state \<times> (error + path)" where
  "TemporaryDirectory e d st =
     (if d \<notin> paths st then (st, Inl FileNotFoundError)
      else if d \<notin> dirs st then (st, Inl NotADirectoryError)
      else let t = d @ [mkdtemp e d (paths st)]
           in (st\<lparr>paths := insert t (paths st), dirs := insert t (dirs st)\<rparr>, Inr t))"

definition cleanup :: "path \<Rightarrow> state \<Rightarrow> state \<times> (error + unit)" where
  "cleanup t st =
     (if t \<in> paths st \<and> t \<notin> dirs st then (st, Inl NotADirectoryError)
      else (st\<lparr>paths := {p \<in> paths st. take (length t) p \<noteq> t},
               dirs := {p \<in> dirs st. take (length t) p \<noteq> t}\<rparr>, Inr ()))"

text \<open>
  A \<open>File\<close> of kind archive owns a \<open>TemporaryDirectory\<close>. When the last reference to
  the \<open>File\<close> is dropped, the finaliser of the directory runs \<open>cleanup\<close>; what it
  raises is not passed on.
\<close>

definition finalize :: "File list \<Rightarrow> state \<Rightarrow> state" where
  "finalize files st =
     fold (\<lambda>f s. case tempdir f of Some t \<Rightarrow> fst (cleanup t s) | None \<Rightarrow> s) files st"

text \<open>\<open>File.__init__\<close>.\<close>

definition File_init ::
  "env \<Rightarrow> path \<Rightarrow> path option \<Rightarrow> path option \<Rightarrow> state \<Rightarrow> state \<times> (error + File)" where
  "File_init e input_path dir_path temp_path st =
     (let out0 = (case dir_path of
                    Some d \<Rightarrow> joinpath d (name input_path)
                  | None \<Rightarrow> input_path)
      in case with_suffix out0 ''.chd'' of
           Inl err \<Rightarrow> (st, Inl err)
         | Inr out \<Rightarrow>
             let ty = match_type input_path;
                 file = \<lparr>input = input_path, output_path = out, type = ty, tempdir = None\<rparr>
             in if ty = Some Archive
                then (case TemporaryDirectory e
                             (case temp_path of Some t \<Rightarrow> t | None \<Rightarrow> parent out) st of
                        (st', Inl err) \<Rightarrow> (st', Inl err)
                      | (st', Inr t) \<Rightarrow> (st', Inr (file\<lparr>tempdir := Some t\<rparr>)))
                else (st, Inr file))"

section \<open>Job messages and the statistics\<close>

definition message_job :: "string \<Rightarrow> path \<Rightarrow> int \<Rightarrow> state \<Rightarrow> state" where
  "message_job message path job_index st =
     (let app = self st;
          app' = (if \<not> parallel app then
                    (if message = ''Started''
                       then app\<lparr>stats_started := stats_started app + 1\<rparr>
                     else if message = ''Skipped''
                       then app\<lparr>stats_skipped := stats_skipped app + 1\<rparr>
                     else if message = ''Failed''
                       then app\<lparr>stats_failed := stats_failed app + 1\<rparr>
                     else if message = ''Completed''
                       then app\<lparr>stats_completed := stats_completed app + 1\<rparr>
                     else app)
                  else app);
          path_msg = (if names app then name path else as_posix path)
      in st\<lparr>self := app', printed := printed st @ [(job_index, message, path_msg)]\<rparr>)"

section \<open>Sizes\<close>

text \<open>
  \<open>File.get_size\<close> returns a float. The model computes with the exact quotient: a file
  size below \<open>2 ^ 53\<close> divided by a power of 1024 is a float without rounding, and
  \<open>round(size, 3)\<close> rounds that exact value to three decimals, ties to the even
  neighbour. The float nearest to the rounded decimal compares with 750 as the decimal
  does.
\<close>

definition round_half_even :: "rat \<Rightarrow> int" where
  "round_half_even x =
     (let f = \<lfloor>x\<rfloor>; d = x - of_int f
      in if d < 1 / 2 then f
         else if 1 / 2 < d then f + 1
         else if even f then f else f + 1)"

definition py_round :: "rat \<Rightarrow> nat \<Rightarrow> rat" where
  "py_round x ndigits = of_int (round_half_even (x * 10 ^ ndigits)) / 10 ^ ndigits"

definition exponents_map :: "(string \<times> nat) list" where
  "exponents_map = [(''B'', 0), (''KB'', 1), (''MB'', 2), (''GB'', 3)]"

definition get_size :: "File \<Rightarrow> string \<Rightarrow> state \<Rightarrow> error + rat" where
  "get_size file unit st =
     (case map_of exponents_map unit of
        None \<Rightarrow> Inl ValueError
      | Some exponent \<Rightarrow>
          if \<not> exists (input file) st then Inl FileNotFoundError
          else let file_size = st_size st (input file)
               in if unit = ''bytes'' then Inr (of_nat file_size)
                  else Inr (py_round (of_nat file_size / 1024 ^ exponent) 3))"

section \<open>Converter\<close>

fun digits :: "nat \<Rightarrow> string" where
  "digits n =
     (if n < 10 then [''0123456789'' ! n]
      else digits (n div 10) @ [''0123456789'' ! (n mod 10)])"

definition str :: "int \<Rightarrow> string" where
  "str i = (if i < 0 then CHR ''-'' # digits (nat (- i)) else digits (nat i))"

definition subprocess_run ::
  "env \<Rightarrow> string list \<Rightarrow> stream \<Rightarrow> stream \<Rightarrow> state \<Rightarrow> CompletedProcess \<times> state" where
  "subprocess_run e command out err st =
     (case run e command (paths st, st_size st, dirs st) of
        (completed, ps, sz, ds) \<Rightarrow>
          (completed,
           st\<lparr>paths := ps, st_size := sz, dirs := ds,
              spawned := spawned st @ [(command, out, err)]\<rparr>))"

definition run_convert_process :: "env \<Rightarrow> string list \<Rightarrow> state \<Rightarrow> CompletedProcess \<times> state" where
  "run_convert_process e command st =
     (if quiet (self st) then subprocess_run e command PIPE PIPE st
      else if parallel (self st) then subprocess_run e command Inherited PIPE st
      else subprocess_run e command Inherited Inherited st)"

text \<open>Lines 257 to 274 of \<open>convert_file\<close>: the command line for chdman.\<close>

definition convert_command :: "File \<Rightarrow> state \<Rightarrow> error + string list" where
  "convert_command file st =
     (let app = self st;
          command = [as_posix (chdman app)];
          sub = (if mode app = ''auto'' then
                   (case get_size file ''MB'' st of
                      Inl err \<Rightarrow> Inl err
                    | Inr mb \<Rightarrow>
                        if mb > 750 then Inr (command @ [''createdvd''])
                        else Inr (command @ [''createcd'']))
                 else if mode app = ''cd'' then Inr (command @ [''createcd''])
                 else if mode app = ''dvd'' then Inr (command @ [''createdvd''])
                 else Inr command)
      in case sub of
           Inl err \<Rightarrow> Inl err
         | Inr command \<Rightarrow>
             Inr (command
                  @ (if chd_processors app \<noteq> 0
                     then [''--numprocessors'', str (chd_processors app)] else [])
                  @ [''--input'', as_posix (input file),
                     ''--output'', as_posix (output_path file)]))"

definition convert_file ::
  "env \<Rightarrow> File \<Rightarrow> int \<Rightarrow> state \<Rightarrow> state \<times> (error + CompletedProcess)" where
  "convert_file e file job_index st =
     (let st1 = (if job_index \<noteq> 0 then message_job ''Started'' (input file) job_index st
                 else st)
      in case convert_command file st1 of
           Inl err \<Rightarrow> (st1, Inl err)
         | Inr command \<Rightarrow>
             (case run_convert_process e command st1 of
                (completed, st2) \<Rightarrow>
                  if job_index \<noteq> 0 then
                    (if returncode completed = 0 \<and> exists (output_path file) st2
                     then (message_job ''Completed'' (output_path file) job_index st2,
                           Inr completed)
                     else (case unlink (output_path file) st2 of
                             (st3, Inl err) \<Rightarrow> (st3, Inl err)
                           | (st3, Inr _) \<Rightarrow>
                               (message_job ''Failed'' (output_path file) job_index st3,
                                Inr completed)))
                  else (st2, Inr completed)))"

section \<open>Archive pipeline\<close>

text \<open>
  \<open>re.findall(r"Path = (.+)", stdout, re.M)\<close>: the dot matches every character but the
  newline and \<open>.+\<close> is greedy, so each line gives at most one match, the rest of the
  line after the leftmost \<open>Path = \<close> that something follows.
\<close>

fun split :: "char \<Rightarrow> string \<Rightarrow> string list" where
  "split sep [] = [[]]"
| "split sep (c # cs) =
     (if c = sep then [] # split sep cs
      else (case split sep cs of
              [] \<Rightarrow> [[c]]
            | l # ls \<Rightarrow> (c # l) # ls))"

fun search :: "string \<Rightarrow> string option" where
  "search [] = None"
| "search (c # cs) =
     (if take 7 (c # cs) = ''Path = '' \<and> drop 7 (c # cs) \<noteq> [] then Some (drop 7 (c # cs))
      else search cs)"

definition findall :: "string \<Rightarrow> string list" where
  "findall text = List.map_filter search (split (CHR 0x0A) text)"

text \<open>
  \<open>Path(entry)\<close> drops empty components and single dots; joined onto the name of the
  temporary directory, an entry that starts with a slash stands alone.
\<close>

definition Path :: "string \<Rightarrow> path" where
  "Path s = filter (\<lambda>c. c \<noteq> [] \<and> c \<noteq> ''.'') (split CHR ''/'' s)"

definition rtruediv :: "path \<Rightarrow> string \<Rightarrow> path" where
  "rtruediv t entry = (if take 1 entry = ''/'' then Path entry else t @ Path entry)"

fun listing_files :: "env \<Rightarrow> File \<Rightarrow> string list \<Rightarrow> state \<Rightarrow> state \<times> (error + File list)" where
  "listing_files e file [] st = (st, Inr [])"
| "listing_files e file (entry # rest) st =
     (case tempdir file of
        None \<Rightarrow> (st, Inl AttributeError)
      | Some t \<Rightarrow>
          (case File_init e (rtruediv t entry) None None st of
             (st1, Inl err) \<Rightarrow> (st1, Inl err)
           | (st1, Inr f) \<Rightarrow>
               (case listing_files e file rest st1 of
                  (st2, Inl err) \<Rightarrow> (finalize [f] st2, Inl err)
                | (st2, Inr fs) \<Rightarrow> (st2, Inr (f # fs)))))"

definition listing_command :: "App \<Rightarrow> File \<Rightarrow> string list" where
  "listing_command app file =
     [as_posix (p7z app), ''l'', ''-slt'', ''-y'', as_posix (input file)]"

definition listing_from_archive :: "env \<Rightarrow> File \<Rightarrow> state \<Rightarrow> state \<times> (error + File list)" where
  "listing_from_archive e file st =
     (case subprocess_run e (listing_command (self st) file) PIPE PIPE st of
        (completed, st1) \<Rightarrow>
          if returncode completed = 0
          then listing_files e file (tl (findall (stdout completed))) st1
          else (st1, Inr []))"

text \<open>Lines 290 to 295 of \<open>convert_archive\<close>: the members that are converted.\<close>

definition filter_archlist :: "File list \<Rightarrow> File list" where
  "filter_archlist listing =
     (let archlist = filter (\<lambda>f. type f = Some Image \<or> type f = Some Sheet) listing;
          archlist = filter_other_in_gdi_dirs archlist;
          archlist = filter_images_in_sheet_dirs archlist
      in if filter (\<lambda>f. type f = Some Sheet) archlist \<noteq> []
         then filter (\<lambda>f. \<not> suffix (input f) = ''.iso'') archlist
         else archlist)"

text \<open>
  The only members with a temporary directory of their own are those of kind archive, and
  line 290 drops the last reference to them (see \<open>finalize\<close>).
\<close>

definition extract_command :: "App \<Rightarrow> File \<Rightarrow> path \<Rightarrow> string list" where
  "extract_command app archive t =
     [as_posix (p7z app), ''x'']
     @ (if quiet app \<or> parallel app then [''-y''] else [])
     @ (if parallel app then [''-bd''] else [])
     @ [''-o'' @ as_posix t, as_posix (input archive)]"

text \<open>Lines 313 to 316: where a converted member is moved to.\<close>

definition dest_path :: "App \<Rightarrow> File \<Rightarrow> File \<Rightarrow> error + path" where
  "dest_path app archive file =
     (if no_rename app then with_name (output_path archive) (name (output_path file))
      else Inr (output_path archive))"

text \<open>The loop of lines 311 to 323; \<open>completed\<close> is the result of the last process.\<close>

fun convert_members ::
  "env \<Rightarrow> File \<Rightarrow> int \<Rightarrow> File list \<Rightarrow> CompletedProcess \<Rightarrow> state
     \<Rightarrow> state \<times> (error + CompletedProcess)" where
  "convert_members e archive job_index [] completed st = (st, Inr completed)"
| "convert_members e archive job_index (file # rest) completed st =
     (case convert_file e file 0 st of
        (st1, Inl err) \<Rightarrow> (st1, Inl err)
      | (st1, Inr completed1) \<Rightarrow>
          (case dest_path (self st1) archive file of
             Inl err \<Rightarrow> (st1, Inl err)
           | Inr dest \<Rightarrow>
               (case unlink dest st1 of
                  (st2, Inl err) \<Rightarrow> (st2, Inl err)
                | (st2, Inr _) \<Rightarrow>
                    if returncode completed1 = 0 then
                      (case move (output_path file) dest st2 of
                         (st3, Inl err) \<Rightarrow> (st3, Inl err)
                       | (st3, Inr _) \<Rightarrow>
                           convert_members e archive job_index rest completed1
                             (if exists dest st3
                              then message_job ''Completed'' dest job_index st3
                              else st3))
                    else convert_members e archive job_index rest completed1
                           (message_job ''Failed'' dest job_index st2))))"

definition convert_archive ::
  "env \<Rightarrow> File \<Rightarrow> int \<Rightarrow> state \<Rightarrow> state \<times> (error + CompletedProcess option)" where
  "convert_archive e archive job_index st =
     (case listing_from_archive e archive
             (message_job ''Started'' (input archive) job_index st) of
        (st1, Inl err) \<Rightarrow> (st1, Inl err)
      | (st1, Inr listing) \<Rightarrow>
          let archlist = filter_archlist listing;
              st2 = finalize listing st1
          in if archlist = []
             then (message_job ''Failed'' (output_path archive) job_index st2, Inr None)
             else
               (case tempdir archive of
                  None \<Rightarrow> (st2, Inl AttributeError)
                | Some t \<Rightarrow>
                    (case run_convert_process e (extract_command (self st2) archive t) st2 of
                       (completed, st3) \<Rightarrow>
                         (case (if returncode completed = 0
                                then convert_members e archive job_index archlist completed st3
                                else (message_job ''Failed'' (output_path archive) job_index st3,
                                      Inr completed)) of
                            (st4, Inl err) \<Rightarrow> (st4, Inl err)
                          | (st4, Inr completed1) \<Rightarrow>
                              (case cleanup t st4 of
                                 (st5, Inl err) \<Rightarrow> (st5, Inl err)
                               | (st5, Inr _) \<Rightarrow> (st5, Inr (Some completed1)))))))"

section \<open>Job scheduler\<close>

text \<open>
  The loop of \<open>convert\<close>. In parallel mode a job is handed to the pool and the loop goes
  on; what the workers do with it, and when, is not part of this model. In serial mode
  the job runs before the next entry is looked at, and an exception ends the loop.
\<close>

fun convert_loop ::
  "env \<Rightarrow> File list \<Rightarrow> int \<Rightarrow> int \<Rightarrow> state \<Rightarrow> state \<times> (error + int)" where
  "convert_loop e [] job_index last_index st = (st, Inr last_index)"
| "convert_loop e (file # rest) job_index last_index st =
     (if dry_run (self st) then
        convert_loop e rest (job_index + 1) (job_index + 1)
          (message_job ''Skipped'' (input file) job_index st)
      else if exists (output_path file) st then
        convert_loop e rest (job_index + 1) (job_index + 1)
          (message_job ''Skipped'' (input file) job_index st)
      else if type file = Some Image \<or> type file = Some Sheet then
        (if parallel (self st) then
           convert_loop e rest (job_index + 1) (job_index + 1)
             (st\<lparr>pool := pool st @ [Convert_file file job_index]\<rparr>)
         else
           (case convert_file e file job_index st of
              (st1, Inl err) \<Rightarrow> (st1, Inl err)
            | (st1, Inr _) \<Rightarrow> convert_loop e rest (job_index + 1) (job_index + 1) st1))
      else if type file = Some Archive then
        (if parallel (self st) then
           convert_loop e rest (job_index + 1) (job_index + 1)
             (st\<lparr>pool := pool st @ [Convert_archive file job_index]\<rparr>)
         else
           (case convert_archive e file job_index st of
              (st1, Inl err) \<Rightarrow> (st1, Inl err)
            | (st1, Inr _) \<Rightarrow> convert_loop e rest (job_index + 1) (job_index + 1) st1))
      else
        convert_loop e rest (job_index + 1) (job_index + 1)
          (message_job ''Skipped'' (input file) job_index st))"

definition convert :: "env \<Rightarrow> File list \<Rightarrow> int \<Rightarrow> state \<Rightarrow> state \<times> (error + int)" where
  "convert e file_list start_index st = convert_loop e file_list start_index start_index st"

section \<open>Example inputs\<close>

text \<open>A sheet \<open>a.gdi\<close> with a track and a second sheet beside it.\<close>

definition gdi_example :: "File list" where
  "gdi_example =
     [\<lparr>input = [''roms'', ''a.gdi''], output_path = [''roms'', ''a.chd''],
       type = Some Sheet, tempdir = None\<rparr>,
      \<lparr>input = [''roms'', ''a.bin''], output_path = [''roms'', ''a.chd''],
       type = None, tempdir = None\<rparr>,
      \<lparr>input = [''roms'', ''a.cue''], output_path = [''roms'', ''a.chd''],
       type = Some Sheet, tempdir = None\<rparr>]"

text \<open>One directory with suffixes in both cases.\<close>

definition case_example :: "File list" where
  "case_example =
     [\<lparr>input = [''roms'', ''A.GDI''], output_path = [''roms'', ''A.chd''],
       type = Some Sheet, tempdir = None\<rparr>,
      \<lparr>input = [''roms'', ''a.gdi''], output_path = [''roms'', ''a.chd''],
       type = Some Sheet, tempdir = None\<rparr>,
      \<lparr>input = [''roms'', ''b.ISO''], output_path = [''roms'', ''b.chd''],
       type = Some Image, tempdir = None\<rparr>,
      \<lparr>input = [''roms'', ''c.iso''], output_path = [''roms'', ''c.chd''],
       type = Some Image, tempdir = None\<rparr>]"

text \<open>Two directories, the literal suffix \<open>.gdi\<close> in one of them only.\<close>

definition mixed_dirs_example :: "File list" where
  "mixed_dirs_example =
     [\<lparr>input = [''a'', ''x.GDI''], output_path = [''a'', ''x.chd''],
       type = Some Sheet, tempdir = None\<rparr>,
      \<lparr>input = [''a'', ''y.cue''], output_path = [''a'', ''y.chd''],
       type = Some Sheet, tempdir = None\<rparr>,
      \<lparr>input = [''b'', ''z.gdi''], output_path = [''b'', ''z.chd''],
       type = Some Sheet, tempdir = None\<rparr>]"

text \<open>Settings of a serial run in cd mode, and a disk with one image.\<close>

definition example_app :: App where
  "example_app =
     \<lparr>mode = ''cd'', chdman = [''usr'', ''bin'', ''chdman''], p7z = [''usr'', ''bin'', ''7z''],
      no_rename = False, chd_processors = 0, parallel = False, quiet = False, names = False,
      dry_run = False, stats_started = 0, stats_skipped = 0, stats_failed = 0,
      stats_completed = 0\<rparr>"

definition example_state :: state where
  "example_state =
     \<lparr>self = example_app, paths = {[''roms''], [''roms'', ''game.iso'']},
      st_size = (\<lambda>p. 0), dirs = {[''roms'']}, printed = [], spawned = [], pool = []\<rparr>"

definition queue_example :: "File list" where
  "queue_example =
     [\<lparr>input = [''roms'', ''game.iso''], output_path = [''roms'', ''game.chd''],
       type = Some Image, tempdir = None\<rparr>,
      \<lparr>input = [''roms'', ''disc.cue''], output_path = [''roms'', ''disc.chd''],
       type = Some Sheet, tempdir = None\<rparr>]"

text \<open>External programs that always fail and leave the disk as it is.\<close>

definition idle_env :: env where
  "idle_env = \<lparr>run = (\<lambda>command (ps, sz, ds). (\<lparr>returncode = 1, stdout = []\<rparr>, ps, sz, ds)),
               mkdtemp = (\<lambda>d ps. ''tmp1'')\<rparr>"

text \<open>An archive in the queue, its temporary directory made when it was discovered.\<close>

definition example_archive :: File where
  "example_archive =
     \<lparr>input = [''roms'', ''game.7z''], output_path = [''roms'', ''game.chd''],
      type = Some Archive, tempdir = Some [''roms'', ''tmp0'']\<rparr>"

definition archive_state :: state where
  "archive_state =
     \<lparr>self = example_app, paths = {[''roms''], [''roms'', ''game.7z''], [''roms'', ''tmp0'']},
      st_size = (\<lambda>p. 0), dirs = {[''roms''], [''roms'', ''tmp0'']}, printed = [], spawned = [], pool = []\<rparr>"

text \<open>A listing with one image; the extraction fails.\<close>

definition listing_text :: string where
  "listing_text = ''Path = game.7z'' @ [CHR 0x0A] @ ''Path = track.iso'' @ [CHR 0x0A]"

definition extract_fails_env :: env where
  "extract_fails_env =
     \<lparr>run = (\<lambda>command (ps, sz, ds).
               if command ! 1 = ''l'' then (\<lparr>returncode = 0, stdout = listing_text\<rparr>, ps, sz, ds)
               else (\<lparr>returncode = 2, stdout = []\<rparr>,
                     insert [''roms'', ''tmp0'', ''track.iso''] ps, sz, ds)),
      mkdtemp = (\<lambda>d ps. ''tmp1'')\<rparr>"

text \<open>A listing with nothing that can be converted.\<close>

definition unsupported_env :: env where
  "unsupported_env =
     \<lparr>run = (\<lambda>command (ps, sz, ds).
               (\<lparr>returncode = 0,
                 stdout = ''Path = game.7z'' @ [CHR 0x0A] @ ''Path = readme.txt'' @ [CHR 0x0A]\<rparr>,
                ps, sz, ds)),
      mkdtemp = (\<lambda>d ps. ''tmp1'')\<rparr>"

text \<open>Auto mode, with every file of the size given.\<close>

definition auto_state :: "nat \<Rightarrow> state" where
  "auto_state n =
     \<lparr>self = example_app\<lparr>mode := ''auto''\<rparr>, paths = {[''roms''], [''roms'', ''game.iso'']},
      st_size = (\<lambda>p. n), dirs = {[''roms'']}, printed = [], spawned = [], pool = []\<rparr>"



text \<open>The archive after its extraction, with one member, and a chdman that converts it.\<close>

definition track_member :: File where
  "track_member =
     \<lparr>input = [''roms'', ''tmp0'', ''track.iso''],
      output_path = [''roms'', ''tmp0'', ''track.chd''], type = Some Image, tempdir = None\<rparr>"

definition extracted_state :: state where
  "extracted_state =
     \<lparr>self = example_app,
      paths = {[''roms''], [''roms'', ''game.7z''], [''roms'', ''tmp0''],
               [''roms'', ''tmp0'', ''track.iso'']},
      st_size = (\<lambda>p. 0), dirs = {[''roms''], [''roms'', ''tmp0'']}, printed = [], spawned = [], pool = []\<rparr>"

definition member_ok_env :: env where
  "member_ok_env =
     \<lparr>run = (\<lambda>command (ps, sz, ds).
               (\<lparr>returncode = 0, stdout = []\<rparr>,
                insert [''roms'', ''tmp0'', ''track.chd''] ps, sz, ds)),
      mkdtemp = (\<lambda>d ps. ''tmp1'')\<rparr>"

text \<open>A listing with a text file and an archive in a folder.\<close>

definition nested_env :: env where
  "nested_env =
     \<lparr>run = (\<lambda>command (ps, sz, ds).
               (\<lparr>returncode = 0,
                 stdout = ''Path = game.7z'' @ [CHR 0x0A] @ ''Path = readme.txt'' @ [CHR 0x0A]
                          @ ''Path = sub/other.zip'' @ [CHR 0x0A]\<rparr>,
                ps, sz, ds)),
      mkdtemp = (\<lambda>d ps. ''tmp1'')\<rparr>"



section \<open>The classifier\<close>

lemma lower_char_dot: "lower_char c = CHR ''.'' \<longleftrightarrow> c = CHR ''.''"
  by (auto simp: lower_char_def split: option.splits if_splits)

lemma suffix_shape:
  "suffix p \<noteq> [] \<Longrightarrow> \<exists>ext. suffix p = CHR ''.'' # ext \<and> ext \<noteq> [] \<and> CHR ''.'' \<notin> set ext"
  unfolding suffix_def Let_def
  by (auto split: if_splits dest: set_takeWhileD)

lemma lstrip_lower_suffix:
  "suffix p \<noteq> [] \<Longrightarrow> lstrip (lower (suffix p)) CHR ''.'' = lower (tl (suffix p))"
proof -
  assume "suffix p \<noteq> []"
  then obtain ext where e: "suffix p = CHR ''.'' # ext" "ext \<noteq> []" "CHR ''.'' \<notin> set ext"
    using suffix_shape by blast
  then obtain c cs where c: "ext = c # cs" by (cases ext) auto
  with e have "c \<noteq> CHR ''.''" by auto
  then have "lower_char c \<noteq> CHR ''.''" by (simp add: lower_char_dot)
  with e c show ?thesis
    by (simp add: lstrip_def lower_def lower_char_dot)
qed

text \<open>
  Claim C8. The kind of a path depends on its suffix alone: the suffix is lowercased, its
  leading dot is stripped, and the result is looked up in the table. gdi and cue give
  sheet, iso gives image, 7z, zip, gz, gzip, bz2, bzip2, rar and tar give archive, and
  every other extension, as well as no extension, gives no kind.
\<close>

theorem match_type_table:
  "match_type p =
     (let ext = lstrip (lower (suffix p)) CHR ''.''
      in if ext \<in> {''gdi'', ''cue''} then Some Sheet
         else if ext = ''iso'' then Some Image
         else if ext \<in> {''7z'', ''zip'', ''gz'', ''gzip'', ''bz2'', ''bzip2'', ''rar'', ''tar''}
           then Some Archive
         else None)
   \<and> (suffix p = [] \<or> lstrip (lower (suffix p)) CHR ''.'' = lower (tl (suffix p)))"
  using lstrip_lower_suffix [of p]
  by (auto simp: match_type_def types_def Let_def lstrip_def lower_def)

theorem match_type_table_witness:
  "match_type [''roms'', ''Game.ISO''] = Some Image
   \<and> match_type [''roms'', ''game.tar.GZ''] = Some Archive
   \<and> match_type [''roms'', ''game.bin''] = None
   \<and> match_type [''roms'', ''game''] = None"
  using match_type_table [of "[''roms'', ''Game.ISO'']"]
        match_type_table [of "[''roms'', ''game.tar.GZ'']"]
        match_type_table [of "[''roms'', ''game.bin'']"]
        match_type_table [of "[''roms'', ''game'']"]
  by (simp add: suffix_def name_def lstrip_def lower_def lower_char_def Let_def)

section \<open>The filter passes\<close>

lemma in_dirs_iff:
  "d \<in> set (map (\<lambda>f. parent (input f)) (filter P fs))
     \<longleftrightarrow> (\<exists>g \<in> set fs. P g \<and> parent (input g) = d)"
  by (induction fs) auto

lemma pass1_eq:
  "filter_other_in_gdi_dirs fs =
     filter (\<lambda>f. \<not> (\<exists>g \<in> set fs. suffix (input g) = ''.gdi''
                                  \<and> parent (input g) = parent (input f))
                 \<or> suffix (input f) = ''.gdi'') fs"
proof (cases "\<forall>g \<in> set fs. suffix (input g) \<noteq> ''.gdi''")
  case True
  then have "filter (\<lambda>f. \<not> (\<exists>g \<in> set fs. suffix (input g) = ''.gdi''
                                        \<and> parent (input g) = parent (input f))
                       \<or> suffix (input f) = ''.gdi'') fs = fs"
    by (simp add: filter_id_conv)
  with True show ?thesis
    by (simp add: filter_other_in_gdi_dirs_def Let_def filter_empty_conv)
next
  case False
  then show ?thesis
    by (simp add: filter_other_in_gdi_dirs_def Let_def filter_empty_conv in_dirs_iff
             del: set_map set_filter)
qed

lemma pass1_identity:
  "\<forall>g \<in> set fs. suffix (input g) \<noteq> ''.gdi'' \<Longrightarrow> filter_other_in_gdi_dirs fs = fs"
  by (simp add: filter_other_in_gdi_dirs_def Let_def filter_empty_conv)

lemma pass1_drops:
  assumes "suffix (input f) \<noteq> ''.gdi''" "g \<in> set fs" "suffix (input g) = ''.gdi''"
    "parent (input g) = parent (input f)"
  shows "f \<notin> set (filter_other_in_gdi_dirs fs)"
  using assms by (auto simp: pass1_eq)

lemma pass2_eq:
  "filter_images_in_sheet_dirs fs =
     filter (\<lambda>f. \<not> (suffix (input f) = ''.iso''
                     \<and> (\<exists>g \<in> set fs. type g = Some Sheet
                                      \<and> parent (input g) = parent (input f)))) fs"
proof (cases "\<forall>g \<in> set fs. type g \<noteq> Some Sheet")
  case True
  then have "filter (\<lambda>f. \<not> (suffix (input f) = ''.iso''
                           \<and> (\<exists>g \<in> set fs. type g = Some Sheet
                                            \<and> parent (input g) = parent (input f)))) fs = fs"
    by (simp add: filter_id_conv)
  with True show ?thesis
    by (simp add: filter_images_in_sheet_dirs_def Let_def filter_empty_conv)
next
  case False
  then show ?thesis
    by (simp add: filter_images_in_sheet_dirs_def Let_def filter_empty_conv in_dirs_iff
                  conj_commute
             del: set_map set_filter)
qed

text \<open>
  Claim C7. The first pass keeps the batch in order and retains an entry exactly when no
  entry of the batch with the suffix \<open>.gdi\<close> lies in its directory, or when its own
  suffix is \<open>.gdi\<close>. Of \<open>a.gdi\<close>, \<open>a.bin\<close> and \<open>a.cue\<close> in one directory, only
  \<open>a.gdi\<close> is retained.
\<close>

theorem filter_other_in_gdi_dirs_retains:
  "filter_other_in_gdi_dirs fs =
     filter (\<lambda>f. \<not> (\<exists>g \<in> set fs. suffix (input g) = ''.gdi''
                                  \<and> parent (input g) = parent (input f))
                 \<or> suffix (input f) = ''.gdi'') fs
   \<and> filter_other_in_gdi_dirs gdi_example = [hd gdi_example]"
proof
  show "filter_other_in_gdi_dirs fs =
     filter (\<lambda>f. \<not> (\<exists>g \<in> set fs. suffix (input g) = ''.gdi''
                                  \<and> parent (input g) = parent (input f))
                 \<or> suffix (input f) = ''.gdi'') fs"
    by (rule pass1_eq)
  show "filter_other_in_gdi_dirs gdi_example = [hd gdi_example]"
    by (simp add: filter_other_in_gdi_dirs_def gdi_example_def suffix_def name_def
                  parent_def Let_def)
qed

theorem filter_other_in_gdi_dirs_retains_witness:
  "filter_other_in_gdi_dirs gdi_example = [hd gdi_example]
   \<and> filter_other_in_gdi_dirs (tl gdi_example) = tl gdi_example"
  using filter_other_in_gdi_dirs_retains [of "tl gdi_example"]
        filter_other_in_gdi_dirs_retains [of gdi_example]
  by (simp add: gdi_example_def suffix_def name_def parent_def Let_def)

lemma pass1_keeps:
  assumes "f \<in> set fs"
    and "\<forall>g \<in> set fs. suffix (input g) = ''.gdi'' \<longrightarrow> parent (input g) \<noteq> parent (input f)"
  shows "f \<in> set (filter_other_in_gdi_dirs fs)"
  using assms by (auto simp: pass1_eq)

text \<open>
  Claim C9. The classifier ignores case, the filter passes do not. A path with the suffix
  \<open>.GDI\<close> is a sheet, yet the first pass looks for the literal suffix \<open>.gdi\<close>
  alone: it retains an entry exactly when no entry with the suffix \<open>.gdi\<close> lies in
  its directory or its own suffix is \<open>.gdi\<close>. So an entry is retained when its
  directory holds no \<open>.gdi\<close> entry, whatever \<open>.GDI\<close> entries lie there and
  whatever lies in other directories; a batch without any \<open>.gdi\<close> suffix passes
  unchanged; and an entry with the suffix \<open>.GDI\<close> is dropped when an entry with
  the suffix \<open>.gdi\<close> lies in its directory. The second pass drops exactly the
  entries with the literal suffix \<open>.iso\<close> that share a directory with a sheet, so
  an entry with the suffix \<open>.ISO\<close> is always retained.
\<close>

theorem filters_compare_literal_suffixes:
  "(suffix p = ''.GDI'' \<longrightarrow> match_type p = Some Sheet)
   \<and> filter_other_in_gdi_dirs fs =
       filter (\<lambda>f. \<not> (\<exists>g \<in> set fs. suffix (input g) = ''.gdi''
                                    \<and> parent (input g) = parent (input f))
                   \<or> suffix (input f) = ''.gdi'') fs
   \<and> (f \<in> set fs
        \<and> (\<forall>g \<in> set fs. suffix (input g) = ''.gdi''
                           \<longrightarrow> parent (input g) \<noteq> parent (input f))
        \<longrightarrow> f \<in> set (filter_other_in_gdi_dirs fs))
   \<and> ((\<forall>g \<in> set fs. suffix (input g) \<noteq> ''.gdi'') \<longrightarrow> filter_other_in_gdi_dirs fs = fs)
   \<and> (suffix (input f) = ''.GDI'' \<and> g \<in> set fs \<and> suffix (input g) = ''.gdi''
        \<and> parent (input g) = parent (input f) \<longrightarrow> f \<notin> set (filter_other_in_gdi_dirs fs))
   \<and> filter_images_in_sheet_dirs fs =
       filter (\<lambda>f. \<not> (suffix (input f) = ''.iso''
                       \<and> (\<exists>g \<in> set fs. type g = Some Sheet
                                        \<and> parent (input g) = parent (input f)))) fs
   \<and> (f \<in> set fs \<and> suffix (input f) = ''.ISO'' \<longrightarrow> f \<in> set (filter_images_in_sheet_dirs fs))"
proof -
  have "match_type p = Some Sheet" if "suffix p = ''.GDI''"
    using that by (simp add: match_type_def types_def lstrip_def lower_def lower_char_def)
  moreover have "f \<notin> set (filter_other_in_gdi_dirs fs)"
    if "suffix (input f) = ''.GDI''" "g \<in> set fs" "suffix (input g) = ''.gdi''"
       "parent (input g) = parent (input f)"
    using pass1_drops [of f g fs] that by simp
  moreover have "f \<in> set (filter_images_in_sheet_dirs fs)"
    if "f \<in> set fs" "suffix (input f) = ''.ISO''"
    using that by (simp add: pass2_eq)
  ultimately show ?thesis
    using pass1_identity [of fs] pass2_eq [of fs] pass1_eq [of fs] pass1_keeps [of f fs]
    by blast
qed

theorem filters_compare_literal_suffixes_witness:
  "match_type [''roms'', ''A.GDI''] = Some Sheet
   \<and> filter_other_in_gdi_dirs mixed_dirs_example = mixed_dirs_example
   \<and> mixed_dirs_example ! 0 \<in> set (filter_other_in_gdi_dirs mixed_dirs_example)
   \<and> mixed_dirs_example ! 1 \<in> set (filter_other_in_gdi_dirs mixed_dirs_example)
   \<and> filter_other_in_gdi_dirs [case_example ! 0, case_example ! 2]
       = [case_example ! 0, case_example ! 2]
   \<and> case_example ! 0 \<notin> set (filter_other_in_gdi_dirs case_example)
   \<and> filter_images_in_sheet_dirs case_example
       = [case_example ! 0, case_example ! 1, case_example ! 2]
   \<and> case_example ! 2 \<in> set (filter_images_in_sheet_dirs case_example)"
  using filters_compare_literal_suffixes
          [of "[''roms'', ''A.GDI'']" "[case_example ! 0, case_example ! 2]"
              "case_example ! 0" "case_example ! 1"]
        filters_compare_literal_suffixes
          [of "[''roms'', ''A.GDI'']" case_example "case_example ! 0" "case_example ! 1"]
        filters_compare_literal_suffixes
          [of "[''roms'', ''A.GDI'']" case_example "case_example ! 2" "case_example ! 1"]
        filters_compare_literal_suffixes
          [of "[''roms'', ''A.GDI'']" mixed_dirs_example "mixed_dirs_example ! 0"
              "mixed_dirs_example ! 2"]
        filters_compare_literal_suffixes
          [of "[''roms'', ''A.GDI'']" mixed_dirs_example "mixed_dirs_example ! 1"
              "mixed_dirs_example ! 2"]
  by (simp add: case_example_def mixed_dirs_example_def suffix_def name_def parent_def Let_def)

section \<open>Job messages\<close>

lemma message_job_frame:
  "paths (message_job m p j st) = paths st"
  "st_size (message_job m p j st) = st_size st"
  "spawned (message_job m p j st) = spawned st"
  "pool (message_job m p j st) = pool st"
  "printed (message_job m p j st)
     = printed st @ [(j, m, if names (self st) then name p else as_posix p)]"
  by (simp_all add: message_job_def Let_def)

lemma message_job_settings:
  "mode (self (message_job m p j st)) = mode (self st)"
  "chdman (self (message_job m p j st)) = chdman (self st)"
  "p7z (self (message_job m p j st)) = p7z (self st)"
  "no_rename (self (message_job m p j st)) = no_rename (self st)"
  "chd_processors (self (message_job m p j st)) = chd_processors (self st)"
  "parallel (self (message_job m p j st)) = parallel (self st)"
  "quiet (self (message_job m p j st)) = quiet (self st)"
  "names (self (message_job m p j st)) = names (self st)"
  "dry_run (self (message_job m p j st)) = dry_run (self st)"
  by (simp_all add: message_job_def Let_def)

lemma message_job_parallel_self:
  "parallel (self st) \<Longrightarrow> self (message_job m p j st) = self st"
  by (simp add: message_job_def Let_def)

lemma fold_message_job_parallel_self:
  "parallel (self st) \<Longrightarrow> self (fold (\<lambda>(m, p, j). message_job m p j) calls st) = self st"
  by (induction calls arbitrary: st) (auto simp: message_job_parallel_self)

text \<open>
  Claim C10. In parallel mode no call of \<open>message_job\<close> changes a counter: after any
  sequence of calls the four counters are what they were, and a run that starts from the
  counters set to zero by the constructor ends with all four at zero.
\<close>

theorem parallel_keeps_stats_zero:
  assumes "parallel (self st)"
  shows "(let st' = fold (\<lambda>(m, p, j). message_job m p j) calls st
          in stats_started (self st') = stats_started (self st)
             \<and> stats_skipped (self st') = stats_skipped (self st)
             \<and> stats_failed (self st') = stats_failed (self st)
             \<and> stats_completed (self st') = stats_completed (self st))
       \<and> (let st' = fold (\<lambda>(m, p, j). message_job m p j) calls
                       (st\<lparr>self := init_stats (self st)\<rparr>)
          in stats_started (self st') = 0 \<and> stats_skipped (self st') = 0
             \<and> stats_failed (self st') = 0 \<and> stats_completed (self st') = 0)"
proof -
  have "parallel (self (st\<lparr>self := init_stats (self st)\<rparr>))"
    using assms by (simp add: init_stats_def)
  then have "self (fold (\<lambda>(m, p, j). message_job m p j) calls (st\<lparr>self := init_stats (self st)\<rparr>))
             = init_stats (self st)"
    using fold_message_job_parallel_self [of "st\<lparr>self := init_stats (self st)\<rparr>" calls] by simp
  then show ?thesis
    using fold_message_job_parallel_self [OF assms, of calls]
    by (simp add: Let_def init_stats_def)
qed

theorem parallel_keeps_stats_zero_witness:
  "parallel (self (example_state\<lparr>self := example_app\<lparr>parallel := True\<rparr>\<rparr>))
   \<and> stats_started (self (fold (\<lambda>(m, p, j). message_job m p j)
        [(''Started'', [''roms'', ''game.iso''], 1), (''Completed'', [''roms'', ''game.chd''], 1),
         (''Skipped'', [''roms'', ''b.iso''], 2), (''Failed'', [''roms'', ''c.chd''], 3)]
        (example_state\<lparr>self := init_stats (example_app\<lparr>parallel := True\<rparr>)\<rparr>))) = 0
   \<and> stats_completed (self (fold (\<lambda>(m, p, j). message_job m p j)
        [(''Started'', [''roms'', ''game.iso''], 1), (''Completed'', [''roms'', ''game.chd''], 1)]
        example_state)) = 1"
proof -
  have h: "parallel (self (example_state\<lparr>self := example_app\<lparr>parallel := True\<rparr>\<rparr>))"
    by simp
  have "stats_completed (self (fold (\<lambda>(m, p, j). message_job m p j)
        [(''Started'', [''roms'', ''game.iso''], 1), (''Completed'', [''roms'', ''game.chd''], 1)]
        example_state)) = 1"
    by (simp add: message_job_def example_state_def example_app_def Let_def)
  then show ?thesis
    using h parallel_keeps_stats_zero [OF h,
      of "[(''Started'', [''roms'', ''game.iso''], 1), (''Completed'', [''roms'', ''game.chd''], 1),
         (''Skipped'', [''roms'', ''b.iso''], 2), (''Failed'', [''roms'', ''c.chd''], 3)]"]
    by (simp add: Let_def)
qed

section \<open>The scheduler\<close>

lemma dry_run_loop:
  "dry_run (self st) \<Longrightarrow>
   (case convert_loop e files (j + int n) l st of
      (st', r) \<Rightarrow>
        r = Inr (if files = [] then l else j + int n + int (length files))
        \<and> spawned st' = spawned st \<and> pool st' = pool st \<and> paths st' = paths st
        \<and> printed st' = printed st
             @ map (\<lambda>(i, f). (j + int i, ''Skipped'',
                               if names (self st) then name (input f) else as_posix (input f)))
                 (enumerate n files))"
proof (induction files arbitrary: n l st)
  case Nil
  then show ?case by simp
next
  case (Cons f rest)
  let ?st1 = "message_job ''Skipped'' (input f) (j + int n) st"
  have d: "dry_run (self ?st1)"
    using Cons.prems by (simp add: message_job_settings)
  have step: "convert_loop e (f # rest) (j + int n) l st
        = convert_loop e rest (j + int (Suc n)) (j + int n + 1) ?st1"
    using Cons.prems by (simp add: algebra_simps)
  show ?case
    using Cons.IH [OF d, where n = "Suc n" and l = "j + int n + 1"]
    unfolding step
    by (auto simp: message_job_frame message_job_settings split: prod.splits)
qed

text \<open>
  Claim C6. When dry-run mode is active or the output path of the entry exists as the
  scheduler reaches it, the loop prints Skipped for the entry and goes on to the next one:
  no process is run, no job is handed to the pool, and the disk is as before. In dry-run
  mode the whole queue is handled so.
\<close>

theorem skipped_entry_spawns_nothing:
  "(dry_run (self st) \<or> exists (output_path f) st \<longrightarrow>
      convert_loop e (f # rest) job_index last_index st
        = convert_loop e rest (job_index + 1) (job_index + 1)
            (message_job ''Skipped'' (input f) job_index st)
      \<and> spawned (message_job ''Skipped'' (input f) job_index st) = spawned st
      \<and> pool (message_job ''Skipped'' (input f) job_index st) = pool st
      \<and> paths (message_job ''Skipped'' (input f) job_index st) = paths st
      \<and> printed (message_job ''Skipped'' (input f) job_index st)
          = printed st @ [(job_index, ''Skipped'',
                           if names (self st) then name (input f) else as_posix (input f))])
   \<and> (dry_run (self st) \<longrightarrow>
        (case convert e files start_index st of
           (st', r) \<Rightarrow>
             r = Inr (start_index + int (length files))
             \<and> spawned st' = spawned st \<and> pool st' = pool st \<and> paths st' = paths st
             \<and> printed st' = printed st
                  @ map (\<lambda>(i, f). (start_index + int i, ''Skipped'',
                                    if names (self st) then name (input f)
                                    else as_posix (input f)))
                      (enumerate 0 files)))"
proof -
  have "case convert e files start_index st of
           (st', r) \<Rightarrow>
             r = Inr (start_index + int (length files))
             \<and> spawned st' = spawned st \<and> pool st' = pool st \<and> paths st' = paths st
             \<and> printed st' = printed st
                  @ map (\<lambda>(i, f). (start_index + int i, ''Skipped'',
                                    if names (self st) then name (input f)
                                    else as_posix (input f)))
                      (enumerate 0 files)" if "dry_run (self st)"
    using dry_run_loop [OF that, where e = e and files = files and j = start_index and n = 0
                                and l = start_index]
    by (auto simp: convert_def split: prod.splits)
  then show ?thesis
    by (auto simp: message_job_frame)
qed

theorem skipped_entry_spawns_nothing_witness:
  "exists [''roms'', ''game.chd''] (example_state\<lparr>paths := {[''roms'', ''game.chd'']}\<rparr>)
   \<and> convert_loop idle_env [hd queue_example] 1 1
        (example_state\<lparr>paths := {[''roms'', ''game.chd'']}\<rparr>)
      = (message_job ''Skipped'' [''roms'', ''game.iso''] 1
           (example_state\<lparr>paths := {[''roms'', ''game.chd'']}\<rparr>), Inr 2)
   \<and> dry_run (self (example_state\<lparr>self := example_app\<lparr>dry_run := True\<rparr>\<rparr>))
   \<and> spawned (fst (convert idle_env queue_example 1
        (example_state\<lparr>self := example_app\<lparr>dry_run := True\<rparr>\<rparr>))) = []
   \<and> printed (fst (convert idle_env queue_example 1
        (example_state\<lparr>self := example_app\<lparr>dry_run := True\<rparr>\<rparr>)))
      = [(1, ''Skipped'', ''/roms/game.iso''), (2, ''Skipped'', ''/roms/disc.cue'')]"
proof -
  have h1: "exists [''roms'', ''game.chd''] (example_state\<lparr>paths := {[''roms'', ''game.chd'']}\<rparr>)"
    by (simp add: exists_def)
  have h2: "dry_run (self (example_state\<lparr>self := example_app\<lparr>dry_run := True\<rparr>\<rparr>))"
    by simp
  show ?thesis
    using h1 h2
      skipped_entry_spawns_nothing [where st = "example_state\<lparr>paths := {[''roms'', ''game.chd'']}\<rparr>"
        and f = "hd queue_example" and e = idle_env and rest = "[]" and job_index = 1
        and last_index = 1 and files = "[]" and start_index = 1]
      skipped_entry_spawns_nothing [where st = "example_state\<lparr>self := example_app\<lparr>dry_run := True\<rparr>\<rparr>"
        and f = "hd queue_example" and e = idle_env and rest = "[]" and job_index = 1
        and last_index = 1 and files = queue_example and start_index = 1]
    by (auto simp: queue_example_def example_state_def example_app_def as_posix_def
                   enumerate_eq_zip upt_rec split: prod.splits)
qed

section \<open>The converter\<close>

lemma round_half_even_gt:
  assumes "even k"
  shows "k < round_half_even x \<longleftrightarrow> of_int k + 1 / 2 < x"
proof -
  define f where "f = \<lfloor>x\<rfloor>"
  have lo: "of_int f \<le> x" and hi: "x < of_int f + 1"
    unfolding f_def by linarith+
  consider "f < k" | "f = k" | "k < f" by linarith
  then show ?thesis
  proof cases
    case 1
    then have "f + 1 \<le> k" by simp
    then have "(of_int f :: rat) + 1 \<le> of_int k"
      by (metis of_int_1 of_int_add of_int_le_iff)
    with hi have "\<not> of_int k + 1 / 2 < x" by linarith
    moreover have "round_half_even x \<le> f + 1"
      by (simp add: round_half_even_def Let_def f_def)
    ultimately show ?thesis using 1 by linarith
  next
    case 2
    then show ?thesis
      using assms lo hi
      by (auto simp: round_half_even_def Let_def f_def [symmetric])
  next
    case 3
    then have "k + 1 \<le> f" by simp
    then have "(of_int k :: rat) + 1 \<le> of_int f"
      by (metis of_int_1 of_int_add of_int_le_iff)
    with lo have "of_int k + 1 / 2 < x" by linarith
    moreover have "f \<le> round_half_even x"
      by (simp add: round_half_even_def Let_def f_def)
    ultimately show ?thesis using 3 by linarith
  qed
qed

lemma py_round_MB_gt_750:
  "750 < py_round (of_nat n / 1024 ^ 2) 3 \<longleftrightarrow> 786432525 \<le> n"
proof -
  have "750 < py_round (of_nat n / 1024 ^ 2) 3
        \<longleftrightarrow> (750000 :: int) < round_half_even (of_nat n / 1024 ^ 2 * 10 ^ 3)"
    by (simp add: py_round_def pos_less_divide_eq)
  also have "\<dots> \<longleftrightarrow> of_int 750000 + 1 / 2 < (of_nat n / 1024 ^ 2 * 10 ^ 3 :: rat)"
    by (rule round_half_even_gt) simp
  also have "\<dots> \<longleftrightarrow> (1572865048576 :: rat) < of_nat n * 2000"
    by (simp add: field_simps)
  also have "\<dots> \<longleftrightarrow> (1572865048576 :: nat) < n * 2000"
    by (metis of_nat_less_iff of_nat_mult of_nat_numeral)
  also have "\<dots> \<longleftrightarrow> 786432525 \<le> n"
    by linarith
  finally show ?thesis .
qed

lemma get_size_MB:
  "exists (input f) st \<Longrightarrow>
   get_size f ''MB'' st = Inr (py_round (of_nat (st_size st (input f)) / 1024 ^ 2) 3)"
  by (simp add: get_size_def exponents_map_def Let_def)

lemma convert_command_auto:
  assumes "mode (self st) = ''auto''" "exists (input f) st"
  shows "convert_command f st
           = Inr ([as_posix (chdman (self st)),
                   if 786432525 \<le> st_size st (input f) then ''createdvd'' else ''createcd'']
                  @ (if chd_processors (self st) \<noteq> 0
                     then [''--numprocessors'', str (chd_processors (self st))] else [])
                  @ [''--input'', as_posix (input f), ''--output'', as_posix (output_path f)])"
  using assms py_round_MB_gt_750 [of "st_size st (input f)"]
  by (simp add: convert_command_def get_size_MB Let_def)

lemma get_size_message_job:
  "get_size f u (message_job m p j st) = get_size f u st"
  by (auto simp: get_size_def exists_def message_job_frame Let_def split: option.splits)

lemma convert_command_message_job:
  "convert_command f (message_job m p j st) = convert_command f st"
  by (auto simp: convert_command_def get_size_message_job message_job_settings Let_def
          split: sum.splits)

lemma run_convert_process_frame:
  assumes "run_convert_process e command st = (completed, st1)"
  shows "self st1 = self st" "printed st1 = printed st" "pool st1 = pool st"
    "map fst (spawned st1) = map fst (spawned st) @ [command]"
    "(completed, paths st1, st_size st1, dirs st1)
       = run e command (paths st, st_size st, dirs st)"
  using assms
  by (auto simp: run_convert_process_def subprocess_run_def split: prod.splits if_splits)

lemma convert_file_spawned:
  assumes "convert_command f st = Inr command"
  shows "map fst (spawned (fst (convert_file e f j st))) = map fst (spawned st) @ [command]"
proof -
  let ?st1 = "if j \<noteq> 0 then message_job ''Started'' (input f) j st else st"
  have c: "convert_command f ?st1 = Inr command"
    using assms by (simp add: convert_command_message_job)
  obtain completed st2 where r: "run_convert_process e command ?st1 = (completed, st2)"
    by (cases "run_convert_process e command ?st1")
  have "map fst (spawned st2) = map fst (spawned st) @ [command]"
    using run_convert_process_frame(4) [OF r] by (simp add: message_job_frame)
  then show ?thesis
    using c r
    by (auto simp: convert_file_def Let_def message_job_frame unlink_def
             split: if_splits)
qed

text \<open>
  Claim C3, as the code has it. In auto mode the size of the input in MB, its bytes
  divided by \<open>1024\<^sup>2\<close> and rounded to three decimals, decides the sub-command:
  \<open>createdvd\<close> when it exceeds 750, which is the case from 786432525 bytes on, and
  \<open>createcd\<close> otherwise. An image of exactly 750 MB is converted with
  \<open>createcd\<close>, and so is an image one byte larger.
\<close>

theorem auto_mode_threshold:
  "(mode (self st) = ''auto'' \<and> exists (input f) st \<longrightarrow>
      get_size f ''MB'' st = Inr (py_round (of_nat (st_size st (input f)) / 1024 ^ 2) 3)
      \<and> convert_command f st
          = Inr ([as_posix (chdman (self st)),
                  if 786432525 \<le> st_size st (input f) then ''createdvd'' else ''createcd'']
                 @ (if chd_processors (self st) \<noteq> 0
                    then [''--numprocessors'', str (chd_processors (self st))] else [])
                 @ [''--input'', as_posix (input f), ''--output'', as_posix (output_path f)])
      \<and> map fst (spawned (fst (convert_file e f j st)))
          = map fst (spawned st)
            @ [[as_posix (chdman (self st)),
                if 786432525 \<le> st_size st (input f) then ''createdvd'' else ''createcd'']
               @ (if chd_processors (self st) \<noteq> 0
                  then [''--numprocessors'', str (chd_processors (self st))] else [])
               @ [''--input'', as_posix (input f), ''--output'', as_posix (output_path f)]])
   \<and> (750 < py_round (of_nat n / 1024 ^ 2) 3 \<longleftrightarrow> 786432525 \<le> n)
   \<and> \<not> 750 < py_round (of_nat (750 * 1024 ^ 2) / 1024 ^ 2) 3
   \<and> \<not> 750 < py_round (of_nat (750 * 1024 ^ 2 + 1) / 1024 ^ 2) 3"
proof -
  have "\<not> 750 < py_round (of_nat (750 * 1024 ^ 2) / 1024 ^ 2) 3"
    unfolding py_round_MB_gt_750 by simp
  moreover have "\<not> 750 < py_round (of_nat (750 * 1024 ^ 2 + 1) / 1024 ^ 2) 3"
    unfolding py_round_MB_gt_750 by simp
  ultimately show ?thesis
    using py_round_MB_gt_750 [of n] convert_command_auto [of st f]
      convert_file_spawned [OF convert_command_auto [of st f], of e j] get_size_MB [of f st]
    by blast
qed

lemma example_shown:
  "as_posix [''usr'', ''bin'', ''chdman''] = ''/usr/bin/chdman''"
  "as_posix [''roms'', ''game.iso''] = ''/roms/game.iso''"
  "as_posix [''roms'', ''game.chd''] = ''/roms/game.chd''"
  by (simp_all add: as_posix_def)

lemma auto_state_simps:
  "mode (self (auto_state n)) = ''auto''" "exists [''roms'', ''game.iso''] (auto_state n)"
  "st_size (auto_state n) p = n" "chd_processors (self (auto_state n)) = 0"
  "chdman (self (auto_state n)) = [''usr'', ''bin'', ''chdman'']"
  "spawned (auto_state n) = []"
  "input (hd queue_example) = [''roms'', ''game.iso'']"
  "output_path (hd queue_example) = [''roms'', ''game.chd'']"
  by (simp_all add: auto_state_def example_app_def exists_def queue_example_def)

theorem auto_mode_threshold_witness:
  "mode (self (auto_state 786432000)) = ''auto''
   \<and> exists (input (hd queue_example)) (auto_state 786432000)
   \<and> convert_command (hd queue_example) (auto_state 786432000)
       = Inr [''/usr/bin/chdman'', ''createcd'', ''--input'', ''/roms/game.iso'',
              ''--output'', ''/roms/game.chd'']
   \<and> convert_command (hd queue_example) (auto_state 786432525)
       = Inr [''/usr/bin/chdman'', ''createdvd'', ''--input'', ''/roms/game.iso'',
              ''--output'', ''/roms/game.chd'']
   \<and> map fst (spawned (fst (convert_file idle_env (hd queue_example) 1 (auto_state 786432524))))
       = [[''/usr/bin/chdman'', ''createcd'', ''--input'', ''/roms/game.iso'',
              ''--output'', ''/roms/game.chd'']]"
  using auto_mode_threshold [where st = "auto_state 786432000" and f = "hd queue_example"
          and e = idle_env and j = 1 and n = 0]
        auto_mode_threshold [where st = "auto_state 786432525" and f = "hd queue_example"
          and e = idle_env and j = 1 and n = 0]
        auto_mode_threshold [where st = "auto_state 786432524" and f = "hd queue_example"
          and e = idle_env and j = 1 and n = 0]
  by (simp add: auto_state_simps example_shown)

text \<open>
  One byte above 750 MB the rounded size is 750.0, which does not exceed 750: the
  command is \<open>createcd\<close>, not \<open>createdvd\<close>.
\<close>

theorem auto_mode_one_byte_above_counterexample:
  "mode (self (auto_state (750 * 1024 ^ 2 + 1))) = ''auto''
   \<and> st_size (auto_state (750 * 1024 ^ 2 + 1)) (input (hd queue_example)) = 750 * 1024 ^ 2 + 1
   \<and> convert_command (hd queue_example) (auto_state (750 * 1024 ^ 2 + 1))
       = Inr [''/usr/bin/chdman'', ''createcd'', ''--input'', ''/roms/game.iso'',
              ''--output'', ''/roms/game.chd'']"
  using convert_command_auto [of "auto_state (750 * 1024 ^ 2 + 1)" "hd queue_example"]
  by (simp add: auto_state_simps example_shown)

section \<open>The archive pipeline\<close>

lemma message_job_dirs: "dirs (message_job m p j st) = dirs st"
  by (simp add: message_job_def Let_def)

lemma subprocess_run_frame:
  assumes "subprocess_run e command out err st = (completed, st1)"
  shows "self st1 = self st" "printed st1 = printed st" "pool st1 = pool st"
    "spawned st1 = spawned st @ [(command, out, err)]"
    "completed = fst (run e command (paths st, st_size st, dirs st))"
  using assms by (auto simp: subprocess_run_def split: prod.splits)

lemma TemporaryDirectory_frame:
  assumes "TemporaryDirectory e d st = (st1, r)"
  shows "self st1 = self st \<and> printed st1 = printed st \<and> pool st1 = pool st
         \<and> spawned st1 = spawned st"
  using assms by (auto simp: TemporaryDirectory_def Let_def split: if_splits)

lemma File_init_frame:
  assumes "File_init e p dp tp st = (st1, r)"
  shows "self st1 = self st \<and> printed st1 = printed st \<and> pool st1 = pool st
         \<and> spawned st1 = spawned st"
  using assms
  by (auto simp: File_init_def Let_def split: sum.splits if_splits prod.splits
           dest: TemporaryDirectory_frame)

lemma cleanup_frame:
  "self (fst (cleanup t st)) = self st" "printed (fst (cleanup t st)) = printed st"
  "pool (fst (cleanup t st)) = pool st" "spawned (fst (cleanup t st)) = spawned st"
  by (simp_all add: cleanup_def)

lemma finalize_frame:
  "self (finalize listing st) = self st \<and> printed (finalize listing st) = printed st
   \<and> pool (finalize listing st) = pool st \<and> spawned (finalize listing st) = spawned st"
  unfolding finalize_def
  by (induction listing arbitrary: st) (auto simp: cleanup_frame split: option.splits)

lemma listing_files_frame:
  "listing_files e file entries st = (st1, r) \<Longrightarrow>
   self st1 = self st \<and> printed st1 = printed st \<and> pool st1 = pool st
   \<and> spawned st1 = spawned st"
proof (induction entries arbitrary: st st1 r)
  case Nil
  then show ?case by simp
next
  case (Cons entry rest)
  show ?case
  proof (cases "tempdir file")
    case None
    with Cons.prems show ?thesis by simp
  next
    case (Some t)
    obtain sa ra where fi: "File_init e (rtruediv t entry) None None st = (sa, ra)"
      by (cases "File_init e (rtruediv t entry) None None st")
    note fr = File_init_frame [OF fi]
    show ?thesis
    proof (cases ra)
      case (Inl err)
      with Cons.prems Some fi fr show ?thesis by simp
    next
      case (Inr f)
      obtain sb rb where lf: "listing_files e file rest sa = (sb, rb)"
        by (cases "listing_files e file rest sa")
      from Cons.IH [OF lf] fr Cons.prems Some fi Inr lf show ?thesis
        by (auto simp: finalize_frame split: sum.splits)
    qed
  qed
qed

lemma listing_from_archive_frame:
  assumes "listing_from_archive e file st = (st1, r)"
  shows "self st1 = self st \<and> printed st1 = printed st \<and> pool st1 = pool st
         \<and> spawned st1 = spawned st @ [(listing_command (self st) file, PIPE, PIPE)]"
proof -
  obtain c sa where sr: "subprocess_run e (listing_command (self st) file) PIPE PIPE st = (c, sa)"
    by (cases "subprocess_run e (listing_command (self st) file) PIPE PIPE st")
  note fr = subprocess_run_frame [OF sr]
  show ?thesis
  proof (cases "returncode c = 0")
    case True
    with assms sr have "listing_files e file (tl (findall (stdout c))) sa = (st1, r)"
      by (simp add: listing_from_archive_def)
    from listing_files_frame [OF this] fr show ?thesis by simp
  next
    case False
    with assms sr fr show ?thesis
      by (auto simp: listing_from_archive_def)
  qed
qed

lemma listing_fails:
  assumes "returncode (fst (run e (listing_command (self st) file)
                              (paths st, st_size st, dirs st))) \<noteq> 0"
  shows "snd (listing_from_archive e file st) = Inr []"
  using assms
  by (auto simp: listing_from_archive_def subprocess_run_def split: prod.splits)

lemma convert_archive_empty:
  assumes "listing_from_archive e archive (message_job ''Started'' (input archive) j st)
             = (st1, Inr listing)"
    and "filter_archlist listing = []"
  shows "convert_archive e archive j st
           = (message_job ''Failed'' (output_path archive) j (finalize listing st1), Inr None)"
    and "printed (fst (convert_archive e archive j st))
           = printed st
             @ [(j, ''Started'', if names (self st) then name (input archive)
                                 else as_posix (input archive)),
                (j, ''Failed'', if names (self st) then name (output_path archive)
                                else as_posix (output_path archive))]"
    and "spawned (fst (convert_archive e archive j st))
           = spawned st @ [(listing_command (self st) archive, PIPE, PIPE)]"
proof -
  show eq: "convert_archive e archive j st
           = (message_job ''Failed'' (output_path archive) j (finalize listing st1), Inr None)"
    using assms by (simp add: convert_archive_def Let_def)
  note fr = listing_from_archive_frame [OF assms(1)]
  have l: "listing_command (self (message_job ''Started'' (input archive) j st)) archive
            = listing_command (self st) archive"
    by (simp add: listing_command_def message_job_settings)
  show "printed (fst (convert_archive e archive j st))
           = printed st
             @ [(j, ''Started'', if names (self st) then name (input archive)
                                 else as_posix (input archive)),
                (j, ''Failed'', if names (self st) then name (output_path archive)
                                else as_posix (output_path archive))]"
    using fr unfolding eq
    by (simp add: message_job_frame message_job_settings finalize_frame)
  show "spawned (fst (convert_archive e archive j st))
           = spawned st @ [(listing_command (self st) archive, PIPE, PIPE)]"
    using fr unfolding eq l
    by (simp add: message_job_frame finalize_frame)
qed

lemma convert_archive_listing_raises:
  assumes "listing_from_archive e archive (message_job ''Started'' (input archive) j st)
             = (st1, Inl err)"
  shows "convert_archive e archive j st = (st1, Inl err)"
    and "printed (fst (convert_archive e archive j st))
           = printed st
             @ [(j, ''Started'', if names (self st) then name (input archive)
                                 else as_posix (input archive))]"
    and "spawned (fst (convert_archive e archive j st))
           = spawned st @ [(listing_command (self st) archive, PIPE, PIPE)]"
proof -
  show eq: "convert_archive e archive j st = (st1, Inl err)"
    using assms by (simp add: convert_archive_def)
  note fr = listing_from_archive_frame [OF assms]
  show "printed (fst (convert_archive e archive j st))
           = printed st
             @ [(j, ''Started'', if names (self st) then name (input archive)
                                 else as_posix (input archive))]"
    using fr unfolding eq by (simp add: message_job_frame)
  show "spawned (fst (convert_archive e archive j st))
           = spawned st @ [(listing_command (self st) archive, PIPE, PIPE)]"
    using fr unfolding eq
    by (simp add: message_job_frame listing_command_def message_job_settings)
qed

lemma shown_examples:
  "as_posix [''roms'', ''game.7z''] = ''/roms/game.7z''"
  "as_posix [''roms'', ''game.chd''] = ''/roms/game.chd''"
  "as_posix [''usr'', ''bin'', ''7z''] = ''/usr/bin/7z''"
  by (simp_all add: as_posix_def)

lemma archive_state_simps:
  "names (self archive_state) = False" "printed archive_state = []"
  "spawned archive_state = []" "input example_archive = [''roms'', ''game.7z'']"
  "output_path example_archive = [''roms'', ''game.chd'']"
  "tempdir example_archive = Some [''roms'', ''tmp0'']"
  "listing_command (self archive_state) example_archive
     = [''/usr/bin/7z'', ''l'', ''-slt'', ''-y'', ''/roms/game.7z'']"
  by (simp_all add: archive_state_def example_app_def example_archive_def
                    listing_command_def shown_examples)

lemma nested_entries:
  "tl (findall (stdout (fst (run nested_env command disk))))
     = [''readme.txt'', ''sub/other.zip'']"
  by (cases disk) (simp add: nested_env_def findall_def List.map_filter_def)

lemma nested_kinds:
  "match_type (rtruediv [''roms'', ''tmp0''] ''readme.txt'') = None"
  "match_type (rtruediv [''roms'', ''tmp0''] ''sub/other.zip'') = Some Archive"
  "parent (rtruediv [''roms'', ''tmp0''] ''sub/other.zip'') = [''roms'', ''tmp0'', ''sub'']"
  by (simp_all add: rtruediv_def Path_def match_type_def suffix_def name_def types_def
                    lstrip_def lower_def lower_char_def parent_def Let_def)

lemma nested_listing:
  "snd (listing_from_archive nested_env example_archive
          (message_job ''Started'' (input example_archive) 1 archive_state))
   = Inl FileNotFoundError"
  by (simp add: listing_from_archive_def subprocess_run_def nested_env_def
                example_archive_def archive_state_def example_app_def message_job_def
                listing_command_def findall_def List.map_filter_def File_init_def
                TemporaryDirectory_def finalize_def
                rtruediv_def Path_def with_suffix_def name_def suffix_def match_type_def
                types_def lstrip_def lower_def lower_char_def parent_def Let_def)

lemma unsupported_listing:
  "snd (listing_from_archive unsupported_env example_archive
          (message_job ''Started'' (input example_archive) 1 archive_state))
   = Inr [\<lparr>input = [''roms'', ''tmp0'', ''readme.txt''],
            output_path = [''roms'', ''tmp0'', ''readme.chd''], type = None, tempdir = None\<rparr>]"
  by (simp add: listing_from_archive_def subprocess_run_def unsupported_env_def
                example_archive_def archive_state_def example_app_def message_job_def
                listing_command_def findall_def List.map_filter_def File_init_def
                rtruediv_def Path_def with_suffix_def name_def suffix_def match_type_def
                types_def lstrip_def lower_def lower_char_def Let_def)

text \<open>
  Claim C5. An archive job whose members all drop out is to print one Failed message and
  to extract nothing. Evaluated on an archive that holds \<open>readme.txt\<close> and
  \<open>sub/other.zip\<close>, neither of them an image or a sheet: the \<open>File\<close> made for
  \<open>sub/other.zip\<close> asks for a temporary directory in a folder that is not on disk
  before the extraction, \<open>FileNotFoundError\<close> leaves \<open>convert_archive\<close> after the
  Started message, and no Failed message is printed. An archive that holds
  \<open>readme.txt\<close> alone, and an archive whose listing exits with a nonzero status,
  print Started and one Failed message and run the listing only.
\<close>

theorem nested_archive_listing_raises:
  "tl (findall (stdout (fst (run nested_env (listing_command (self archive_state) example_archive)
         (paths archive_state, st_size archive_state, dirs archive_state)))))
     = [''readme.txt'', ''sub/other.zip'']
   \<and> match_type (rtruediv [''roms'', ''tmp0''] ''readme.txt'') = None
   \<and> match_type (rtruediv [''roms'', ''tmp0''] ''sub/other.zip'') = Some Archive
   \<and> snd (convert_archive nested_env example_archive 1 archive_state) = Inl FileNotFoundError
   \<and> printed (fst (convert_archive nested_env example_archive 1 archive_state))
       = [(1, ''Started'', ''/roms/game.7z'')]
   \<and> snd (convert_archive unsupported_env example_archive 1 archive_state) = Inr None
   \<and> printed (fst (convert_archive unsupported_env example_archive 1 archive_state))
       = [(1, ''Started'', ''/roms/game.7z''), (1, ''Failed'', ''/roms/game.chd'')]
   \<and> spawned (fst (convert_archive unsupported_env example_archive 1 archive_state))
       = [([''/usr/bin/7z'', ''l'', ''-slt'', ''-y'', ''/roms/game.7z''], PIPE, PIPE)]
   \<and> snd (convert_archive idle_env example_archive 1 archive_state) = Inr None
   \<and> printed (fst (convert_archive idle_env example_archive 1 archive_state))
       = [(1, ''Started'', ''/roms/game.7z''), (1, ''Failed'', ''/roms/game.chd'')]
   \<and> spawned (fst (convert_archive idle_env example_archive 1 archive_state))
       = [([''/usr/bin/7z'', ''l'', ''-slt'', ''-y'', ''/roms/game.7z''], PIPE, PIPE)]"
proof -
  let ?start = "message_job ''Started'' (input example_archive) 1 archive_state"
  let ?readme = "[\<lparr>input = [''roms'', ''tmp0'', ''readme.txt''],
       output_path = [''roms'', ''tmp0'', ''readme.chd''], type = None, tempdir = None\<rparr>]"
  have n: "listing_from_archive nested_env example_archive ?start
             = (fst (listing_from_archive nested_env example_archive ?start),
                Inl FileNotFoundError)"
    using nested_listing by (simp add: prod_eq_iff)
  have u: "listing_from_archive unsupported_env example_archive ?start
             = (fst (listing_from_archive unsupported_env example_archive ?start), Inr ?readme)"
    using unsupported_listing by (simp add: prod_eq_iff)
  have uf: "filter_archlist ?readme = []"
    by (simp add: filter_archlist_def filter_other_in_gdi_dirs_def
                  filter_images_in_sheet_dirs_def)
  have "returncode (fst (run idle_env (listing_command (self ?start) example_archive)
          (paths ?start, st_size ?start, dirs ?start))) \<noteq> 0"
    by (simp add: idle_env_def split: prod.splits)
  from listing_fails [OF this]
  have i: "listing_from_archive idle_env example_archive ?start
             = (fst (listing_from_archive idle_env example_archive ?start), Inr [])"
    by (simp add: prod_eq_iff)
  have "filter_archlist [] = []"
    by (simp add: filter_archlist_def filter_other_in_gdi_dirs_def
                  filter_images_in_sheet_dirs_def)
  note ie = convert_archive_empty [OF i this]
  note ue = convert_archive_empty [OF u uf]
  note ne = convert_archive_listing_raises [OF n]
  have s: "snd (convert_archive nested_env example_archive 1 archive_state)
             = Inl FileNotFoundError"
    "snd (convert_archive unsupported_env example_archive 1 archive_state) = Inr None"
    "snd (convert_archive idle_env example_archive 1 archive_state) = Inr None"
    unfolding ne(1) ue(1) ie(1) by simp_all
  show ?thesis
    unfolding s ne(2) ue(2) ue(3) ie(2) ie(3) nested_entries
    by (simp add: archive_state_simps shown_examples nested_kinds(1,2))
qed

lemma cleanup_removes:
  "t \<in> dirs st \<or> t \<notin> paths st \<Longrightarrow>
   snd (cleanup t st) = Inr () \<and> t \<notin> paths (fst (cleanup t st))"
  by (auto simp: cleanup_def)

lemma finalize_Nil: "finalize [] st = st"
  by (simp add: finalize_def)

lemma finalize_no_tempdir: "tempdir f = None \<Longrightarrow> finalize [f] st = st"
  by (simp add: finalize_def)

lemma convert_archive_extract_fails:
  assumes "listing_from_archive e archive (message_job ''Started'' (input archive) j st)
             = (st1, Inr listing)"
    and "filter_archlist listing \<noteq> []"
    and "tempdir archive = Some t"
    and "returncode (fst (run_convert_process e
            (extract_command (self (finalize listing st1)) archive t)
            (finalize listing st1))) \<noteq> 0"
  shows "convert_archive e archive j st
           = (case cleanup t (message_job ''Failed'' (output_path archive) j
                (snd (run_convert_process e
                        (extract_command (self (finalize listing st1)) archive t)
                        (finalize listing st1)))) of
                (st5, Inl err) \<Rightarrow> (st5, Inl err)
              | (st5, Inr _) \<Rightarrow>
                  (st5, Inr (Some (fst (run_convert_process e
                        (extract_command (self (finalize listing st1)) archive t)
                        (finalize listing st1))))))"
  using assms
  by (auto simp: convert_archive_def Let_def split: prod.splits sum.splits)

lemma idle_listing_disk:
  "paths (fst (listing_from_archive idle_env f st)) = paths st"
  by (simp add: listing_from_archive_def subprocess_run_def idle_env_def split: prod.splits)

lemma track_listing:
  "snd (listing_from_archive extract_fails_env example_archive
          (message_job ''Started'' (input example_archive) 1 archive_state))
   = Inr [\<lparr>input = [''roms'', ''tmp0'', ''track.iso''],
            output_path = [''roms'', ''tmp0'', ''track.chd''], type = Some Image,
            tempdir = None\<rparr>]"
  "dirs (fst (listing_from_archive extract_fails_env example_archive
          (message_job ''Started'' (input example_archive) 1 archive_state)))
   = {[''roms''], [''roms'', ''tmp0'']}"
  by (simp_all add: listing_from_archive_def subprocess_run_def extract_fails_env_def
                listing_text_def
                example_archive_def archive_state_def example_app_def message_job_def
                listing_command_def findall_def List.map_filter_def File_init_def
                rtruediv_def Path_def with_suffix_def name_def suffix_def match_type_def
                types_def lstrip_def lower_def lower_char_def Let_def)

lemma track_suffix: "suffix [''roms'', ''tmp0'', ''track.iso''] = ''.iso''"
  by (simp add: suffix_def name_def Let_def)

lemma track_filter:
  "filter_archlist [\<lparr>input = [''roms'', ''tmp0'', ''track.iso''],
            output_path = [''roms'', ''tmp0'', ''track.chd''], type = Some Image,
            tempdir = None\<rparr>]
   = [\<lparr>input = [''roms'', ''tmp0'', ''track.iso''],
            output_path = [''roms'', ''tmp0'', ''track.chd''], type = Some Image,
            tempdir = None\<rparr>]"
proof -
  let ?track = "[\<lparr>input = [''roms'', ''tmp0'', ''track.iso''],
            output_path = [''roms'', ''tmp0'', ''track.chd''], type = Some Image,
            tempdir = None\<rparr>]"
  have p1: "filter_other_in_gdi_dirs ?track = ?track"
    by (simp add: filter_other_in_gdi_dirs_def track_suffix)
  have p2: "filter_images_in_sheet_dirs ?track = ?track"
    by (simp add: filter_images_in_sheet_dirs_def)
  have k: "filter (\<lambda>f. type f = Some Image \<or> type f = Some Sheet) ?track = ?track"
    by simp
  show ?thesis
    unfolding filter_archlist_def k p1 p2 Let_def by simp
qed

lemma extract_fails_run:
  "fst (run_convert_process extract_fails_env (extract_command app archive t) st)
     = \<lparr>returncode = 2, stdout = []\<rparr>"
  "dirs (snd (run_convert_process extract_fails_env (extract_command app archive t) st))
     = dirs st"
  by (simp_all add: run_convert_process_def subprocess_run_def extract_fails_env_def
                extract_command_def split: prod.splits)

text \<open>
  Claim C2. The temporary directory of an archive is to be removed when its job ends, on
  every path. Evaluated on an archive whose listing fails: the job prints Failed and
  returns without a result at line 299, and its temporary directory is still on disk.
  When the listing succeeds and the extraction fails, the job runs to line 327 and the
  directory is gone.
\<close>

theorem early_return_keeps_tempdir:
  "tempdir example_archive = Some [''roms'', ''tmp0'']
   \<and> [''roms'', ''tmp0''] \<in> paths archive_state
   \<and> snd (convert_archive idle_env example_archive 1 archive_state) = Inr None
   \<and> [''roms'', ''tmp0''] \<in> paths (fst (convert_archive idle_env example_archive 1 archive_state))
   \<and> snd (convert_archive extract_fails_env example_archive 1 archive_state)
       = Inr (Some \<lparr>returncode = 2, stdout = []\<rparr>)
   \<and> [''roms'', ''tmp0'']
       \<notin> paths (fst (convert_archive extract_fails_env example_archive 1 archive_state))"
proof -
  let ?start = "message_job ''Started'' (input example_archive) 1 archive_state"
  let ?track = "[\<lparr>input = [''roms'', ''tmp0'', ''track.iso''],
            output_path = [''roms'', ''tmp0'', ''track.chd''], type = Some Image,
            tempdir = None\<rparr>]"
  let ?t = "[''roms'', ''tmp0'']"
  have t: "tempdir example_archive = Some ?t"
    by (simp add: example_archive_def)
  have p: "?t \<in> paths archive_state"
    by (simp add: archive_state_def)
  have f: "filter_archlist [] = []"
    by (simp add: filter_archlist_def filter_other_in_gdi_dirs_def
                  filter_images_in_sheet_dirs_def)
  have "returncode (fst (run idle_env (listing_command (self ?start) example_archive)
          (paths ?start, st_size ?start, dirs ?start))) \<noteq> 0"
    by (simp add: idle_env_def split: prod.splits)
  from listing_fails [OF this]
  have i: "listing_from_archive idle_env example_archive ?start
             = (fst (listing_from_archive idle_env example_archive ?start), Inr [])"
    by (simp add: prod_eq_iff)
  have idle: "snd (convert_archive idle_env example_archive 1 archive_state) = Inr None"
    "?t \<in> paths (fst (convert_archive idle_env example_archive 1 archive_state))"
    using p unfolding convert_archive_empty(1) [OF i f]
    by (simp_all add: message_job_frame finalize_Nil idle_listing_disk)
  let ?st1 = "fst (listing_from_archive extract_fails_env example_archive ?start)"
  have l: "listing_from_archive extract_fails_env example_archive ?start = (?st1, Inr ?track)"
    using track_listing(1) by (simp add: prod_eq_iff)
  have n: "filter_archlist ?track \<noteq> []"
    unfolding track_filter by simp
  have fin: "finalize ?track ?st1 = ?st1"
    by (simp add: finalize_no_tempdir)
  have r: "returncode (fst (run_convert_process extract_fails_env
            (extract_command (self (finalize ?track ?st1)) example_archive ?t)
            (finalize ?track ?st1))) \<noteq> 0"
    unfolding extract_fails_run by simp
  let ?st3 = "message_job ''Failed'' (output_path example_archive) 1
                (snd (run_convert_process extract_fails_env
                        (extract_command (self (finalize ?track ?st1)) example_archive ?t)
                        (finalize ?track ?st1)))"
  have "?t \<in> dirs ?st3"
    unfolding fin by (simp add: message_job_dirs extract_fails_run track_listing(2))
  from cleanup_removes [of ?t ?st3] this
  obtain s5 where c: "cleanup ?t ?st3 = (s5, Inr ())" "?t \<notin> paths s5"
    by (cases "cleanup ?t ?st3") auto
  have fails: "snd (convert_archive extract_fails_env example_archive 1 archive_state)
       = Inr (Some \<lparr>returncode = 2, stdout = []\<rparr>)"
    "?t \<notin> paths (fst (convert_archive extract_fails_env example_archive 1 archive_state))"
    unfolding convert_archive_extract_fails [OF l n t r] c(1)
    using c(2) by (simp_all add: extract_fails_run)
  from t p idle fails show ?thesis by simp
qed

section \<open>Outcome of a conversion\<close>

lemma run_convert_process_eq:
  assumes "run e command (paths st, st_size st, dirs st) = (completed, ps, sz, ds)"
  shows "\<exists>out err. run_convert_process e command st
           = (completed, st\<lparr>paths := ps, st_size := sz, dirs := ds,
                             spawned := spawned st @ [(command, out, err)]\<rparr>)"
proof -
  have "\<exists>out err. subprocess_run e command a b st
           = (completed, st\<lparr>paths := ps, st_size := sz, dirs := ds,
                             spawned := spawned st @ [(command, out, err)]\<rparr>)" for a b
    using assms by (simp add: subprocess_run_def) blast
  then show ?thesis
    by (simp add: run_convert_process_def)
qed


lemma convert_file_zero:
  assumes "convert_command f st = Inr command"
    and "run e command (paths st, st_size st, dirs st) = (completed, ps, sz, ds)"
  shows "snd (convert_file e f 0 st) = Inr completed"
    and "printed (fst (convert_file e f 0 st)) = printed st"
    and "paths (fst (convert_file e f 0 st)) = ps"
    and "self (fst (convert_file e f 0 st)) = self st"
    and "dirs (fst (convert_file e f 0 st)) = ds"
proof -
  obtain out err where "run_convert_process e command st
           = (completed, st\<lparr>paths := ps, st_size := sz, dirs := ds,
                             spawned := spawned st @ [(command, out, err)]\<rparr>)"
    using run_convert_process_eq [OF assms(2)] by blast
  with assms(1) have "convert_file e f 0 st
      = (st\<lparr>paths := ps, st_size := sz, dirs := ds,
            spawned := spawned st @ [(command, out, err)]\<rparr>,
         Inr completed)"
    by (simp add: convert_file_def)
  then show "snd (convert_file e f 0 st) = Inr completed"
    and "printed (fst (convert_file e f 0 st)) = printed st"
    and "paths (fst (convert_file e f 0 st)) = ps"
    and "self (fst (convert_file e f 0 st)) = self st"
    and "dirs (fst (convert_file e f 0 st)) = ds"
    by simp_all
qed













section \<open>Destinations of archive members\<close>

lemma convert_file_zero_self:
  "convert_file e f 0 st = (st1, r) \<Longrightarrow> self st1 = self st"
  by (auto simp: convert_file_def split: sum.splits prod.splits
           dest: run_convert_process_frame(1))

lemma dest_path_eq:
  assumes "name (output_path archive) \<noteq> []" "name (output_path f) \<noteq> []"
    "CHR ''/'' \<notin> set (name (output_path f))" "name (output_path f) \<noteq> ''.''"
  shows "dest_path app archive f
           = Inr (if no_rename app then parent (output_path archive) @ [name (output_path f)]
                  else output_path archive)"
  using assms by (simp add: dest_path_def with_name_def parent_def)

lemma convert_members_step:
  assumes "convert_file e f 0 st = (st1, Inr completed1)"
    and "dest_path (self st) archive f = Inr dest"
  shows "dest \<in> paths st1 \<and> dest \<in> dirs st1 \<Longrightarrow>
         convert_members e archive j (f # rest) c st = (st1, Inl IsADirectoryError)"
    and "\<not> (dest \<in> paths st1 \<and> dest \<in> dirs st1) \<Longrightarrow> returncode completed1 \<noteq> 0 \<Longrightarrow>
         convert_members e archive j (f # rest) c st
           = convert_members e archive j rest completed1
               (message_job ''Failed'' dest j (fst (unlink dest st1)))"
    and "\<not> (dest \<in> paths st1 \<and> dest \<in> dirs st1) \<Longrightarrow> returncode completed1 = 0 \<Longrightarrow>
         exists (output_path f) st1 \<Longrightarrow> output_path f \<notin> dirs st1 \<Longrightarrow>
         output_path f \<noteq> dest \<Longrightarrow>
         convert_members e archive j (f # rest) c st
           = convert_members e archive j rest completed1
               (message_job ''Completed'' dest j
                  (fst (move (output_path f) dest (fst (unlink dest st1)))))
         \<and> exists dest (fst (move (output_path f) dest (fst (unlink dest st1))))
         \<and> \<not> exists (output_path f) (fst (move (output_path f) dest (fst (unlink dest st1))))"
proof -
  have d: "dest_path (self st1) archive f = Inr dest"
    using assms convert_file_zero_self [OF assms(1)] by simp
  show "convert_members e archive j (f # rest) c st = (st1, Inl IsADirectoryError)"
    if "dest \<in> paths st1 \<and> dest \<in> dirs st1"
    using assms(1) d that by (simp add: unlink_def)
  show "convert_members e archive j (f # rest) c st
           = convert_members e archive j rest completed1
               (message_job ''Failed'' dest j (fst (unlink dest st1)))"
    if "\<not> (dest \<in> paths st1 \<and> dest \<in> dirs st1)" "returncode completed1 \<noteq> 0"
    using assms(1) d that by (auto simp: unlink_def)
  show "convert_members e archive j (f # rest) c st
           = convert_members e archive j rest completed1
               (message_job ''Completed'' dest j
                  (fst (move (output_path f) dest (fst (unlink dest st1)))))
         \<and> exists dest (fst (move (output_path f) dest (fst (unlink dest st1))))
         \<and> \<not> exists (output_path f) (fst (move (output_path f) dest (fst (unlink dest st1))))"
    if "\<not> (dest \<in> paths st1 \<and> dest \<in> dirs st1)" "returncode completed1 = 0"
       "exists (output_path f) st1" "output_path f \<notin> dirs st1" "output_path f \<noteq> dest"
    using assms(1) d that
    by (auto simp: Let_def move_def unlink_def exists_def)
qed

text \<open>
  Claim C1, as the code has it. For a member that the loop of the archive pipeline has
  converted, the destination is the output path of the archive itself when renaming is
  enabled (\<open>no_rename\<close> false, the default), and the directory of that output path
  joined with the converted name of the member when renaming is disabled
  (\<open>no_rename\<close> true). What is at the destination is unlinked first, which a
  directory there refuses with \<open>IsADirectoryError\<close>. After that a member whose
  conversion failed gets a Failed message with the destination, and a member whose
  conversion succeeded is moved there and gets a Completed message with it.
\<close>

theorem member_destination:
  "convert_file e f 0 st = (st1, Inr completed1)
   \<and> name (output_path archive) \<noteq> [] \<and> name (output_path f) \<noteq> []
   \<and> CHR ''/'' \<notin> set (name (output_path f)) \<and> name (output_path f) \<noteq> ''.''
   \<and> dest = (if no_rename (self st) then parent (output_path archive) @ [name (output_path f)]
             else output_path archive) \<longrightarrow>
     dest_path (self st) archive f = Inr dest
     \<and> (dest \<in> paths st1 \<and> dest \<in> dirs st1 \<longrightarrow>
          convert_members e archive j (f # rest) c st = (st1, Inl IsADirectoryError))
     \<and> (\<not> (dest \<in> paths st1 \<and> dest \<in> dirs st1) \<and> returncode completed1 \<noteq> 0 \<longrightarrow>
          convert_members e archive j (f # rest) c st
            = convert_members e archive j rest completed1
                (message_job ''Failed'' dest j (fst (unlink dest st1))))
     \<and> (\<not> (dest \<in> paths st1 \<and> dest \<in> dirs st1) \<and> returncode completed1 = 0
         \<and> exists (output_path f) st1 \<and> output_path f \<notin> dirs st1
         \<and> output_path f \<noteq> dest \<longrightarrow>
          convert_members e archive j (f # rest) c st
            = convert_members e archive j rest completed1
                (message_job ''Completed'' dest j
                   (fst (move (output_path f) dest (fst (unlink dest st1)))))
          \<and> exists dest (fst (move (output_path f) dest (fst (unlink dest st1))))
          \<and> \<not> exists (output_path f)
                (fst (move (output_path f) dest (fst (unlink dest st1)))))"
proof (intro impI)
  assume a: "convert_file e f 0 st = (st1, Inr completed1)
   \<and> name (output_path archive) \<noteq> [] \<and> name (output_path f) \<noteq> []
   \<and> CHR ''/'' \<notin> set (name (output_path f)) \<and> name (output_path f) \<noteq> ''.''
   \<and> dest = (if no_rename (self st) then parent (output_path archive) @ [name (output_path f)]
             else output_path archive)"
  then have d: "dest_path (self st) archive f = Inr dest"
    using dest_path_eq [of archive f "self st"] by simp
  from a have cf: "convert_file e f 0 st = (st1, Inr completed1)" by simp
  show "dest_path (self st) archive f = Inr dest
     \<and> (dest \<in> paths st1 \<and> dest \<in> dirs st1 \<longrightarrow>
          convert_members e archive j (f # rest) c st = (st1, Inl IsADirectoryError))
     \<and> (\<not> (dest \<in> paths st1 \<and> dest \<in> dirs st1) \<and> returncode completed1 \<noteq> 0 \<longrightarrow>
          convert_members e archive j (f # rest) c st
            = convert_members e archive j rest completed1
                (message_job ''Failed'' dest j (fst (unlink dest st1))))
     \<and> (\<not> (dest \<in> paths st1 \<and> dest \<in> dirs st1) \<and> returncode completed1 = 0
         \<and> exists (output_path f) st1 \<and> output_path f \<notin> dirs st1
         \<and> output_path f \<noteq> dest \<longrightarrow>
          convert_members e archive j (f # rest) c st
            = convert_members e archive j rest completed1
                (message_job ''Completed'' dest j
                   (fst (move (output_path f) dest (fst (unlink dest st1)))))
          \<and> exists dest (fst (move (output_path f) dest (fst (unlink dest st1))))
          \<and> \<not> exists (output_path f)
                (fst (move (output_path f) dest (fst (unlink dest st1)))))"
    using d convert_members_step(1) [OF cf d, of j rest c]
      convert_members_step(2) [OF cf d, of j rest c]
      convert_members_step(3) [OF cf d, of j rest c]
    by blast
qed

lemma move_frame:
  "self (fst (move src dst st)) = self st" "printed (fst (move src dst st)) = printed st"
  by (simp_all add: move_def Let_def)

lemma unlink_frame:
  "self (fst (unlink p st)) = self st" "printed (fst (unlink p st)) = printed st"
  by (simp_all add: unlink_def)

lemma member_command:
  "convert_command track_member (extracted_state\<lparr>self := example_app\<lparr>no_rename := b\<rparr>\<rparr>)
     = Inr [''/usr/bin/chdman'', ''createcd'', ''--input'', ''/roms/tmp0/track.iso'',
            ''--output'', ''/roms/tmp0/track.chd'']"
  by (simp add: convert_command_def extracted_state_def example_app_def track_member_def
                as_posix_def Let_def)

lemma member_ok_run:
  "run member_ok_env command
     (paths (extracted_state\<lparr>self := example_app\<lparr>no_rename := b\<rparr>\<rparr>),
      st_size (extracted_state\<lparr>self := example_app\<lparr>no_rename := b\<rparr>\<rparr>),
      dirs (extracted_state\<lparr>self := example_app\<lparr>no_rename := b\<rparr>\<rparr>))
     = (\<lparr>returncode = 0, stdout = []\<rparr>,
        {[''roms''], [''roms'', ''game.7z''], [''roms'', ''tmp0''],
         [''roms'', ''tmp0'', ''track.iso''], [''roms'', ''tmp0'', ''track.chd'']}, \<lambda>p. 0,
        {[''roms''], [''roms'', ''tmp0'']})"
  by (auto simp: member_ok_env_def extracted_state_def)

theorem member_destination_witness:
  "printed (fst (convert_members member_ok_env example_archive 1 [track_member]
                   \<lparr>returncode = 0, stdout = []\<rparr>
                   (extracted_state\<lparr>self := example_app\<lparr>no_rename := False\<rparr>\<rparr>)))
     = [(1, ''Completed'', ''/roms/game.chd'')]
   \<and> [''roms'', ''game.chd'']
       \<in> paths (fst (convert_members member_ok_env example_archive 1 [track_member]
                   \<lparr>returncode = 0, stdout = []\<rparr>
                   (extracted_state\<lparr>self := example_app\<lparr>no_rename := False\<rparr>\<rparr>)))
   \<and> printed (fst (convert_members member_ok_env example_archive 1 [track_member]
                   \<lparr>returncode = 0, stdout = []\<rparr>
                   (extracted_state\<lparr>self := example_app\<lparr>no_rename := True\<rparr>\<rparr>)))
     = [(1, ''Completed'', ''/roms/track.chd'')]
   \<and> [''roms'', ''track.chd'']
       \<in> paths (fst (convert_members member_ok_env example_archive 1 [track_member]
                   \<lparr>returncode = 0, stdout = []\<rparr>
                   (extracted_state\<lparr>self := example_app\<lparr>no_rename := True\<rparr>\<rparr>)))"
proof -
  let ?c = "\<lparr>returncode = 0, stdout = []\<rparr>"
  let ?src = "[''roms'', ''tmp0'', ''track.chd'']"
  have shown: "as_posix [''roms'', ''game.chd''] = ''/roms/game.chd''"
    "as_posix [''roms'', ''track.chd''] = ''/roms/track.chd''"
    by (simp_all add: as_posix_def)
  have nm: "name [''roms'', ''game.chd''] = ''game.chd''"
    "name ?src = ''track.chd''"
    "output_path example_archive = [''roms'', ''game.chd'']"
    "output_path track_member = ?src"
    "parent [''roms'', ''game.chd''] = [''roms'']"
    by (simp_all add: example_archive_def track_member_def name_def parent_def)
  have run: "printed (fst (convert_members member_ok_env example_archive 1 [track_member] ?c
                       (extracted_state\<lparr>self := example_app\<lparr>no_rename := b\<rparr>\<rparr>)))
               = [(1, ''Completed'', as_posix (if b then [''roms'', ''track.chd'']
                                               else [''roms'', ''game.chd'']))]
             \<and> (if b then [''roms'', ''track.chd''] else [''roms'', ''game.chd''])
                 \<in> paths (fst (convert_members member_ok_env example_archive 1 [track_member] ?c
                       (extracted_state\<lparr>self := example_app\<lparr>no_rename := b\<rparr>\<rparr>)))" for b
  proof -
    let ?st = "extracted_state\<lparr>self := example_app\<lparr>no_rename := b\<rparr>\<rparr>"
    let ?st1 = "fst (convert_file member_ok_env track_member 0 ?st)"
    let ?dest = "if b then [''roms'', ''track.chd''] else [''roms'', ''game.chd'']"
    note z = convert_file_zero [OF member_command [where b = b] member_ok_run [where b = b]]
    have cf: "convert_file member_ok_env track_member 0 ?st = (?st1, Inr ?c)"
      using z(1) by (simp add: prod_eq_iff)
    have st1: "printed ?st1 = []" "names (self ?st1) = False" "?src \<in> paths ?st1"
      "?src \<notin> dirs ?st1" "?dest \<notin> dirs ?st1"
      using z(2,3,4,5) by (simp_all add: extracted_state_def example_app_def)
    have dest: "?dest = (if no_rename (self ?st)
                         then parent (output_path example_archive)
                              @ [name (output_path track_member)]
                         else output_path example_archive)"
      by (simp add: nm)
    have hyp: "convert_file member_ok_env track_member 0 ?st = (?st1, Inr ?c)
       \<and> name (output_path example_archive) \<noteq> [] \<and> name (output_path track_member) \<noteq> []
       \<and> CHR ''/'' \<notin> set (name (output_path track_member))
       \<and> name (output_path track_member) \<noteq> ''.''
       \<and> ?dest = (if no_rename (self ?st)
                   then parent (output_path example_archive)
                        @ [name (output_path track_member)]
                   else output_path example_archive)"
      using cf dest by (simp add: nm)
    have ok: "\<not> (?dest \<in> paths ?st1 \<and> ?dest \<in> dirs ?st1) \<and> returncode ?c = 0
              \<and> exists (output_path track_member) ?st1
              \<and> output_path track_member \<notin> dirs ?st1
              \<and> output_path track_member \<noteq> ?dest"
      using st1(3,4,5) by (simp add: nm exists_def)
    have "convert_members member_ok_env example_archive 1 [track_member] ?c ?st
            = convert_members member_ok_env example_archive 1 [] ?c
                (message_job ''Completed'' ?dest 1
                   (fst (move (output_path track_member) ?dest (fst (unlink ?dest ?st1)))))
          \<and> exists ?dest (fst (move (output_path track_member) ?dest (fst (unlink ?dest ?st1))))"
      using member_destination [where e = member_ok_env and f = track_member and st = ?st
              and ?st1.0 = ?st1 and ?completed1.0 = ?c and archive = example_archive
              and dest = ?dest and j = 1 and rest = "[]" and c = ?c] hyp ok
      by blast
    then show ?thesis
      using st1(1,2)
      by (simp add: message_job_frame move_frame unlink_frame nm exists_def)
  qed
  show ?thesis
    using run [of False] run [of True] by (simp add: shown)
qed

text \<open>
  With renaming enabled the member \<open>track.iso\<close> of \<open>game.7z\<close> goes to
  \<open>game.chd\<close>, not to \<open>track.chd\<close>; with renaming disabled it goes to
  \<open>track.chd\<close>, not to the output path of the archive.
\<close>

theorem rename_destination_counterexample:
  "\<not> no_rename example_app
   \<and> dest_path example_app example_archive track_member = Inr [''roms'', ''game.chd'']
   \<and> dest_path example_app example_archive track_member
       \<noteq> Inr (joinpath (parent (output_path example_archive))
                        (name (output_path track_member)))
   \<and> no_rename (example_app\<lparr>no_rename := True\<rparr>)
   \<and> dest_path (example_app\<lparr>no_rename := True\<rparr>) example_archive track_member
       = Inr [''roms'', ''track.chd'']
   \<and> dest_path (example_app\<lparr>no_rename := True\<rparr>) example_archive track_member
       \<noteq> Inr (output_path example_archive)"
  by (simp add: dest_path_def with_name_def example_app_def example_archive_def
                track_member_def name_def parent_def joinpath_def)

end
